theory Spec2Isabelle
  imports Complex_Main
begin

section \<open>Strings: the pieces of Python's \<open>str\<close>, \<open>re\<close> and \<open>os.path\<close> the add-on uses\<close>

text \<open>
  A Python string is modelled by the bytes of its UTF-8 encoding, so that equality and
  the substring test \<open>in\<close> are those of Python. \<open>lower\<close> and \<open>upper\<close> fold the letters
  \<open>A\<close>..\<open>Z\<close> and \<open>a\<close>..\<open>z\<close> only, and \<open>is_alnum\<close> is the class \<open>[a-zA-Z0-9]\<close> of
  ASCII characters.

  On a string of ASCII characters (\<open>is_ascii\<close>) these are \<open>str.lower()\<close>, \<open>str.upper()\<close>
  and the class \<open>[a-zA-Z0-9]\<close> under \<open>re.IGNORECASE\<close>. Beyond ASCII Python does more:
  \<open>str.lower()\<close> folds the capital A with grave to the small one of the keyword
  \<open>rugosit\<close>-a-grave, and under \<open>re.IGNORECASE\<close> the long s (U+017F), the dotless and
  the dotted i (U+0131, U+0130) and the Kelvin sign (U+212A) match \<open>s\<close>, \<open>i\<close> and \<open>k\<close>
  and belong to \<open>[a-zA-Z0-9]\<close>. The two classifiers read the names of nodes and images
  through these patterns; what is proved of them is stated for names of ASCII characters.

  The names of sockets are only lowered and then compared with, or searched for, fixed
  ASCII words that contain no \<open>k\<close> and in which every \<open>i\<close> is followed by a letter. On
  these tests the folding of \<open>A\<close>..\<open>Z\<close> and \<open>str.lower()\<close> agree for every name: beyond
  ASCII, \<open>str.lower()\<close> yields an ASCII letter only for the Kelvin sign (\<open>k\<close>) and for
  the dotted capital I (\<open>i\<close> followed by a combining dot). \<open>upper\<close> is applied to the
  names of the texture types only, which are ASCII.
\<close>

definition is_ascii :: "string \<Rightarrow> bool" where
  "is_ascii s = (\<forall>c \<in> set s. (of_char c :: nat) < 128)"

definition upper_letters :: string where
  "upper_letters = ''ABCDEFGHIJKLMNOPQRSTUVWXYZ''"

definition lower_letters :: string where
  "lower_letters = ''abcdefghijklmnopqrstuvwxyz''"

definition digits :: string where
  "digits = ''0123456789''"

definition is_alnum :: "char \<Rightarrow> bool" where
  "is_alnum c = (c \<in> set (lower_letters @ upper_letters @ digits))"

definition lower_ch :: "char \<Rightarrow> char" where
  "lower_ch c = (case map_of (zip upper_letters lower_letters) c of None \<Rightarrow> c | Some d \<Rightarrow> d)"

definition upper_ch :: "char \<Rightarrow> char" where
  "upper_ch c = (case map_of (zip lower_letters upper_letters) c of None \<Rightarrow> c | Some d \<Rightarrow> d)"

definition lower :: "string \<Rightarrow> string" where
  "lower s = map lower_ch s"

definition upper :: "string \<Rightarrow> string" where
  "upper s = map upper_ch s"

text \<open>\<open>kw in s\<close> on Python strings: \<open>kw\<close> occurs in \<open>s\<close> as a contiguous piece.\<close>

fun contains :: "string \<Rightarrow> string \<Rightarrow> bool" where
  "contains kw [] = (kw = [])"
| "contains kw (c # cs) = (take (length kw) (c # cs) = kw \<or> contains kw cs)"

text \<open>
  \<open>re.search(r'(^|[^a-zA-Z0-9])' + re.escape(kw) + r'($|[^a-zA-Z0-9])', s, re.IGNORECASE)\<close>:
  the escaped keyword is matched literally (without regard to case) at some position that
  is the start of \<open>s\<close> or follows a character outside \<open>[a-zA-Z0-9]\<close>, and the match must
  end at the end of \<open>s\<close> or before a character outside \<open>[a-zA-Z0-9]\<close> (a trailing
  newline, where \<open>$\<close> also matches, is such a character).
\<close>

definition kw_here :: "string \<Rightarrow> string \<Rightarrow> bool" where
  "kw_here kw s =
     (length kw \<le> length s \<and> lower (take (length kw) s) = lower kw \<and>
      (case drop (length kw) s of [] \<Rightarrow> True | c # _ \<Rightarrow> \<not> is_alnum c))"

fun scan :: "string \<Rightarrow> bool \<Rightarrow> string \<Rightarrow> bool" where
  "scan kw ok [] = (ok \<and> kw_here kw [])"
| "scan kw ok (c # cs) = ((ok \<and> kw_here kw (c # cs)) \<or> scan kw (\<not> is_alnum c) cs)"

definition re_search_boundary :: "string \<Rightarrow> string \<Rightarrow> bool" where
  "re_search_boundary kw s = scan kw True s"






text \<open>\<open>re.split(r'[_\-\.]', s)\<close>: the pieces between separators, empty pieces included.\<close>

definition is_sep :: "char \<Rightarrow> bool" where
  "is_sep c = (c = CHR ''_'' \<or> c = CHR ''-'' \<or> c = CHR ''.'')"

fun re_split_seps :: "string \<Rightarrow> string list" where
  "re_split_seps [] = [[]]"
| "re_split_seps (c # cs) =
     (if is_sep c then [] # re_split_seps cs
      else (case re_split_seps cs of [] \<Rightarrow> [[c]] | w # ws \<Rightarrow> (c # w) # ws))"

section \<open>The keyword tables\<close>

datatype tex_type =
  Orm | Ors | Color | Emission | Normal | Bump | Metallic | Roughness | Specular
  | Height | Opacity | Ao | Unassigned

record tex_info =
  tex_keywords :: "string list"
  socket :: "string option"
  priority :: int

definition entry :: "string list \<Rightarrow> string option \<Rightarrow> int \<Rightarrow> tex_info" where
  "entry ks s p = \<lparr>tex_keywords = ks, socket = s, priority = p\<rparr>"

text \<open>The table of \<open>luxcore_texture_connect.py\<close>, in the dictionary's insertion order.\<close>

definition texture_mapping_connect :: "(tex_type \<times> tex_info) list" where
  "texture_mapping_connect =
    [(Orm, entry [''orm'', ''arm'', ''mro'', ''metallicroughness'', ''roughnessmetallic'',
                  ''occlusionroughnessmetallic'', ''ambientroughnessmetallic''] None 12),
     (Ors, entry [''ors'', ''occlusionroughnessspecular'', ''roughnessspecularocclusion'',
                  ''specularroughnessocclusion'', ''ambientroughnessspecular'',
                  ''occlusionroughnessgloss'', ''roughnessglossocclusion''] None 11),
     (Color, entry [''color'', ''diff'', ''diffuse'', ''albedo'', ''basecolor'', ''col'', ''base'']
                  (Some ''Base Color'') 9),
     (Emission, entry [''emission'', ''emit'', ''emissive'', ''emiss'', ''glow'', ''light'']
                  (Some ''Emission'') 10),
     (Normal, entry [''normal'', ''norm'', ''nrm'', ''nor'', ''normalmap'', ''normal_map'',
                  ''normalgl'', ''normaldx''] (Some ''Bump'') 8),
     (Bump, entry [''bump'', ''bmp'', ''bump_map'', ''bumpmap''] (Some ''Bump'') 7),
     (Metallic, entry [''metal'', ''metallic'', ''metalness'', ''mtl'', ''met'']
                  (Some ''Metallic'') 6),
     (Roughness, entry [''rough'', ''roughness'', ''rgh'', ''rug''] (Some ''Roughness'') 5),
     (Specular, entry [''spec'', ''specular'', ''specularity'', ''spc''] (Some ''Specular'') 4),
     (Height, entry [''height'', ''disp'', ''displacement'', ''heightmap''] (Some ''Height'') 3),
     (Opacity, entry [''opacity'', ''alpha'', ''transparency'', ''transparent'', ''mask'']
                  (Some ''Opacity'') 2),
     (Ao, entry [''ao'', ''ambientocclusion'', ''occlusion'', ''ambient''] None 1)]"


section \<open>First pass: identifying a texture from its names\<close>

text \<open>
  Both classifiers read the node's name and, when the node carries an image, the image's
  name: \<open>search_text = node_name.lower() + " " + image_name.lower()\<close>.
\<close>

definition search_text :: "string \<Rightarrow> string option \<Rightarrow> string" where
  "search_text node_name img =
     lower node_name @ '' '' @ (case img of None \<Rightarrow> [] | Some i \<Rightarrow> lower i)"

text \<open>
  The inner loop \<open>for keyword in tex_info['keywords']\<close> stops at the first keyword whose
  boundary pattern is found (\<open>break\<close>).
\<close>

fun first_keyword :: "string list \<Rightarrow> string \<Rightarrow> string option" where
  "first_keyword [] text = None"
| "first_keyword (k # ks) text = (if re_search_boundary k text then Some k else first_keyword ks text)"

text \<open>\<open>luxcore_texture_connect.py\<close>, lines 206-216: the highest priority wins, the first
  entry among equals.\<close>

definition identify_step_connect ::
    "string \<Rightarrow> (tex_type \<times> tex_info) option \<times> int \<Rightarrow> tex_type \<times> tex_info
      \<Rightarrow> (tex_type \<times> tex_info) option \<times> int" where
  "identify_step_connect text best e =
     (case first_keyword (tex_keywords (snd e)) text of
        None \<Rightarrow> best
      | Some k \<Rightarrow> (if priority (snd e) > snd best then (Some e, priority (snd e)) else best))"

definition identify_connect :: "string \<Rightarrow> string option \<Rightarrow> (tex_type \<times> tex_info) option" where
  "identify_connect node_name img =
     fst (foldl (identify_step_connect (search_text node_name img)) (None, -1)
            texture_mapping_connect)"





section \<open>The node graph of the host\<close>

text \<open>
  A node of the host's node tree: its kind (\<open>bl_idname\<close>), its \<open>type\<close>, its name, its
  display label, the name of its image (texture nodes), its input and output sockets in
  order, and its other properties (\<open>color_space\<close>, \<open>gamma\<close>, \<open>operation\<close>, ...), present
  exactly when \<open>hasattr\<close> holds. Positions in the editor are not modelled.
\<close>

datatype pyval = PBool bool | PStr string | PNum rat | PVec "rat list"

text \<open>
  The resting value of a socket is a number or a vector of numbers (a colour has three or
  four components); a socket may have none. Floating-point numbers are modelled as
  rationals.
\<close>

datatype sockval = Scalar rat | Vec "rat list"

record socket =
  sock_name :: string
  default_value :: "sockval option"

record node =
  bl_idname :: string
  node_type :: string
  name :: string
  label :: string
  image_name :: "string option"
  inputs :: "socket list"
  outputs :: "socket list"
  attrs :: "(string \<times> pyval) list"

text \<open>A socket is addressed by its node's index in the tree and its own index on the node.\<close>

datatype sock = InS nat nat | OutS nat nat

type_synonym link = "sock \<times> sock"

datatype diag = Print string | Report string string

record node_tree =
  nodes :: "node list"
  links :: "link list"
  diags :: "diag list"

text \<open>
  The host creates nodes: for a kind it either refuses (Python raises, the message is the
  \<open>Inl\<close> value) or hands out a fresh node with the sockets and properties of that kind.
  Node creation is the only host call that is taken to fail; creating a link and
  assigning a property that exists succeed.
\<close>

type_synonym host = "string \<Rightarrow> string + node"

text \<open>
  Modelled from the spec: the host's graph-mutation interface, which is not part of the
  add-on's sources (section 6: create a node of a given kind, returning a handle or a
  "kind not supported" failure; create an edge between two ports, replacing any existing
  edge at the destination; remove a specific edge).
\<close>

definition nodes_new :: "host \<Rightarrow> node_tree \<Rightarrow> string \<Rightarrow> string + (nat \<times> node_tree)" where
  "nodes_new h g kind =
     (case h kind of
        Inl e \<Rightarrow> Inl e
      | Inr n \<Rightarrow> Inr (length (nodes g), g\<lparr>nodes := nodes g @ [n\<lparr>bl_idname := kind\<rparr>]\<rparr>))"

definition links_new :: "node_tree \<Rightarrow> sock \<Rightarrow> sock \<Rightarrow> node_tree" where
  "links_new g src dst = g\<lparr>links := filter (\<lambda>l. snd l \<noteq> dst) (links g) @ [(src, dst)]\<rparr>"

definition links_remove :: "node_tree \<Rightarrow> link \<Rightarrow> node_tree" where
  "links_remove g l = g\<lparr>links := remove1 l (links g)\<rparr>"

definition print :: "string \<Rightarrow> node_tree \<Rightarrow> node_tree" where
  "print s g = g\<lparr>diags := diags g @ [Print s]\<rparr>"

definition report :: "string \<Rightarrow> string \<Rightarrow> node_tree \<Rightarrow> node_tree" where
  "report level s g = g\<lparr>diags := diags g @ [Report level s]\<rparr>"

definition upd_node :: "nat \<Rightarrow> (node \<Rightarrow> node) \<Rightarrow> node_tree \<Rightarrow> node_tree" where
  "upd_node i f g = g\<lparr>nodes := (nodes g)[i := f (nodes g ! i)]\<rparr>"

definition set_label :: "nat \<Rightarrow> string \<Rightarrow> node_tree \<Rightarrow> node_tree" where
  "set_label i s = upd_node i (\<lambda>n. n\<lparr>label := s\<rparr>)"

definition add_label :: "nat \<Rightarrow> string \<Rightarrow> node_tree \<Rightarrow> node_tree" where
  "add_label i s = upd_node i (\<lambda>n. n\<lparr>label := label n @ s\<rparr>)"

definition label_or_name :: "node \<Rightarrow> string" where
  "label_or_name n = (if label n \<noteq> [] then label n else name n)"

definition hasattr :: "node \<Rightarrow> string \<Rightarrow> bool" where
  "hasattr n k = (map_of (attrs n) k \<noteq> None)"

definition setattr :: "nat \<Rightarrow> string \<Rightarrow> pyval \<Rightarrow> node_tree \<Rightarrow> node_tree" where
  "setattr i k v = upd_node i (\<lambda>n. n\<lparr>attrs := map (\<lambda>(k', v'). if k' = k then (k', v) else (k', v')) (attrs n)\<rparr>)"

text \<open>The first index of a list whose element satisfies \<open>P\<close>: a \<open>for ... break\<close> search.\<close>

fun find_idx :: "('a \<Rightarrow> bool) \<Rightarrow> 'a list \<Rightarrow> nat option" where
  "find_idx P [] = None"
| "find_idx P (x # xs) = (if P x then Some 0 else map_option Suc (find_idx P xs))"

text \<open>\<open>name in node.inputs\<close> and \<open>node.inputs[name]\<close>: the first socket of that name.\<close>

definition sock_named :: "string \<Rightarrow> socket list \<Rightarrow> nat option" where
  "sock_named s socks = find_idx (\<lambda>k. sock_name k = s) socks"

text \<open>The first of several names that the sockets have.\<close>

fun first_named :: "string list \<Rightarrow> socket list \<Rightarrow> nat option" where
  "first_named [] socks = None"
| "first_named (s # ss) socks =
     (case sock_named s socks of Some i \<Rightarrow> Some i | None \<Rightarrow> first_named ss socks)"

text \<open>
  The output a texture is read from: the first output named \<open>color\<close>, \<open>image\<close> or
  \<open>value\<close> (in any case), else the first output.
\<close>

definition color_output_of :: "node \<Rightarrow> nat option" where
  "color_output_of n =
     (case find_idx (\<lambda>k. lower (sock_name k) \<in> set [''color'', ''image'', ''value'']) (outputs n) of
        Some i \<Rightarrow> Some i
      | None \<Rightarrow> (if outputs n \<noteq> [] then Some 0 else None))"

text \<open>
  The material's bump input: the first of \<open>Bump\<close>, \<open>bump\<close>, \<open>Normal\<close>, \<open>normal\<close> that
  exists, else the first input whose name contains \<open>bump\<close> or \<open>normal\<close>.
\<close>

definition find_bump_socket :: "node \<Rightarrow> nat option" where
  "find_bump_socket m =
     (case first_named [''Bump'', ''bump'', ''Normal'', ''normal''] (inputs m) of
        Some i \<Rightarrow> Some i
      | None \<Rightarrow> find_idx (\<lambda>k. contains ''bump'' (lower (sock_name k)) \<or>
                              contains ''normal'' (lower (sock_name k))) (inputs m))"

text \<open>An input by its exact name, else the first input whose lowered name contains a fragment.\<close>

definition find_input :: "string \<Rightarrow> string list \<Rightarrow> node \<Rightarrow> nat option" where
  "find_input s frags m =
     (case sock_named s (inputs m) of
        Some i \<Rightarrow> Some i
      | None \<Rightarrow> find_idx (\<lambda>k. \<exists>f \<in> set frags. contains f (lower (sock_name k))) (inputs m))"

text \<open>
  \<open>for node_type in types: try: node = nodes.new(type=node_type); break; except: continue\<close>
\<close>

fun new_first_accepted :: "host \<Rightarrow> node_tree \<Rightarrow> string list \<Rightarrow> (nat \<times> node_tree) option" where
  "new_first_accepted h g [] = None"
| "new_first_accepted h g (k # ks) =
     (case nodes_new h g k of Inr r \<Rightarrow> Some r | Inl e \<Rightarrow> new_first_accepted h g ks)"

definition arrow :: string where
  "arrow = [CHR 0xE2, CHR 0x86, CHR 0x92]"

definition type_name :: "tex_type \<Rightarrow> string" where
  "type_name t = (case t of Orm \<Rightarrow> ''orm'' | Ors \<Rightarrow> ''ors'' | Color \<Rightarrow> ''color''
     | Emission \<Rightarrow> ''emission'' | Normal \<Rightarrow> ''normal'' | Bump \<Rightarrow> ''bump''
     | Metallic \<Rightarrow> ''metallic'' | Roughness \<Rightarrow> ''roughness'' | Specular \<Rightarrow> ''specular''
     | Height \<Rightarrow> ''height'' | Opacity \<Rightarrow> ''opacity'' | Ao \<Rightarrow> ''ao''
     | Unassigned \<Rightarrow> ''unassigned'')"

section \<open>\<open>luxcore_texture_connect.py\<close>: the helpers of the operator\<close>

definition mapping_inputs :: "string list" where
  "mapping_inputs = [''2D Mapping'', ''Mapping'', ''UV'', ''UV Map'', ''UVs'', ''Vector'']"

definition mapping_outputs :: "string list" where
  "mapping_outputs = [''2D Mapping'', ''Mapping'', ''UV'', ''Vector'', ''Output'']"

text \<open>\<open>connect_mapping_to_texture\<close> (lines 396-430).\<close>

definition connect_mapping_to_texture :: "node_tree \<Rightarrow> nat \<Rightarrow> nat \<Rightarrow> bool \<times> node_tree" where
  "connect_mapping_to_texture g mapping_node tex_node =
     (let mn = nodes g ! mapping_node; tn = nodes g ! tex_node
      in if outputs mn \<noteq> [] \<and> inputs tn \<noteq> [] then
           (case (find_idx (\<lambda>k. \<exists>m \<in> set mapping_inputs. contains (lower m) (lower (sock_name k)))
                     (inputs tn),
                  first_named mapping_outputs (outputs mn)) of
              (Some i, Some out) \<Rightarrow>
                (True, set_label tex_node (label_or_name tn @ '' [UV]'')
                         (links_new g (OutS mapping_node out) (InS tex_node i)))
            | _ \<Rightarrow>
                (let input_name = lower (sock_name (inputs tn ! 0))
                 in if \<not> contains ''color'' input_name \<and> \<not> contains ''height'' input_name
                    then (True, set_label tex_node (label_or_name tn @ '' [UV0]'')
                                  (links_new g (OutS mapping_node 0) (InS tex_node 0)))
                    else (False, g)))
         else (False, g))"

definition normalmap_props :: "string list" where
  "normalmap_props = [''is_normal_map'', ''normalmap'', ''normal_map'', ''use_normalmap'',
     ''use_normal_map'', ''is_normalmap'', ''normal'', ''as_normal'']"

text \<open>
  \<open>activate_normal_map\<close> (lines 432-475). The properties probed are taken to be booleans,
  so the first one present is read and, unless already set, set.
\<close>

definition activate_normal_map :: "node_tree \<Rightarrow> nat \<Rightarrow> node_tree" where
  "activate_normal_map g tex_node =
     (let tn = nodes g ! tex_node
      in case find (hasattr tn) normalmap_props of
           Some p \<Rightarrow>
             (if map_of (attrs tn) p = Some (PBool True)
              then add_label tex_node '' [Normalmap ON]''
                     (print (''Normalmap gi'' @ [CHR 0xC3, CHR 0xA0] @ '' attiva per '' @ name tn @ '': ''
                               @ p @ '' = True'') g)
              else add_label tex_node ('' ['' @ p @ ''=True]'')
                     (print (''Attivata normalmap per '' @ name tn @ '': '' @ p @ '' = True'')
                        (setattr tex_node p (PBool True) g)))
         | None \<Rightarrow>
             add_label tex_node '' [No Normalmap Prop]''
               (print (''Nessuna propriet'' @ [CHR 0xC3, CHR 0xA0] @ '' normalmap trovata per '' @ name tn) g))"

text \<open>
  \<open>setup_emission\<close> (lines 477-542), in two steps after the emission node exists: the
  texture's output goes to the emission node's colour input (lines 491-517; \<open>None\<close> when
  that input is missing), and the emission node's first output goes to the material's
  emission input (lines 519-535).
\<close>

definition emission_from_texture :: "nat \<Rightarrow> nat \<Rightarrow> node_tree \<Rightarrow> node_tree option" where
  "emission_from_texture emission_node tex_node g =
     (case color_output_of (nodes g ! tex_node) of
        None \<Rightarrow> Some g
      | Some color_output \<Rightarrow>
          (case find_idx (\<lambda>k. contains ''color'' (lower (sock_name k)))
                  (inputs (nodes g ! emission_node)) of
             None \<Rightarrow> None
           | Some color_input \<Rightarrow>
               Some ((if hasattr (nodes g ! tex_node) ''color_space''
                      then setattr tex_node ''color_space'' (PStr ''sRGB'') else id)
                       (links_new g (OutS tex_node color_output) (InS emission_node color_input)))))"

definition emission_to_material :: "nat \<Rightarrow> nat \<Rightarrow> node_tree \<Rightarrow> bool \<times> node_tree" where
  "emission_to_material emission_node material g =
     (if outputs (nodes g ! emission_node) \<noteq> [] then
        (case find_input ''Emission'' [''emission'', ''emit''] (nodes g ! material) of
           Some i \<Rightarrow> (True, links_new g (OutS emission_node 0) (InS material i))
         | None \<Rightarrow> (False, print ''Emission input not found in Disney node'' g))
      else (False, g))"

definition setup_emission :: "host \<Rightarrow> node_tree \<Rightarrow> nat \<Rightarrow> nat \<Rightarrow> bool \<times> node_tree" where
  "setup_emission h g material tex_node =
     (case nodes_new h g ''LuxCoreNodeMatEmission'' of
        Inl e \<Rightarrow> (False, print (''Cannot create Emission node: '' @ e) g)
      | Inr (emission_node, g1) \<Rightarrow>
          (case emission_from_texture emission_node tex_node (set_label emission_node ''Emission'' g1) of
             None \<Rightarrow> (False, print ''Color input not found in Emission node''
                                (set_label emission_node ''Emission'' g1))
           | Some g2 \<Rightarrow> emission_to_material emission_node material g2))"

text \<open>
  \<open>setup_bump\<close> (lines 544-644). The loop over the bump node's inputs sets the sampling
  distance to 0.001 and the bump height to 0.01 on the inputs that have a value (lines
  558-575); then the texture goes to the bump node's value input (577-600) and the bump
  output to the material's bump input (605-637).
\<close>

fun bump_defaults :: "socket list \<Rightarrow> socket list \<times> string list" where
  "bump_defaults [] = ([], [])"
| "bump_defaults (k # ks) =
     (let inp_name = lower (sock_name k);
          rest = bump_defaults ks
      in if contains ''sampling'' inp_name \<or> contains ''distance'' inp_name then
           (if default_value k \<noteq> None
            then (k\<lparr>default_value := Some (Scalar (1 / 1000))\<rparr> # fst rest,
                  (''Set Sampling Distance to 0.001 on input: '' @ sock_name k) # snd rest)
            else (k # fst rest, snd rest))
         else if contains ''height'' inp_name \<or> contains ''bump height'' inp_name then
           (if default_value k \<noteq> None
            then (k\<lparr>default_value := Some (Scalar (1 / 100))\<rparr> # fst rest,
                  (''Set Bump Height to 0.01 on input: '' @ sock_name k) # snd rest)
            else (k # fst rest, snd rest))
         else (k # fst rest, snd rest))"

definition bump_set_defaults :: "nat \<Rightarrow> node_tree \<Rightarrow> node_tree" where
  "bump_set_defaults bump_node g =
     fold print (snd (bump_defaults (inputs (nodes g ! bump_node))))
       (upd_node bump_node (\<lambda>n. n\<lparr>inputs := fst (bump_defaults (inputs n))\<rparr>) g)"

definition bump_from_texture :: "nat \<Rightarrow> nat \<Rightarrow> node_tree \<Rightarrow> node_tree option" where
  "bump_from_texture bump_node tex_node g =
     (case color_output_of (nodes g ! tex_node) of
        None \<Rightarrow> Some g
      | Some color_output \<Rightarrow>
          (case find_idx (\<lambda>k. contains ''value'' (lower (sock_name k))) (inputs (nodes g ! bump_node)) of
             None \<Rightarrow> None
           | Some value_input \<Rightarrow>
               Some (print ''Connected texture to Bump node Value input''
                       (links_new g (OutS tex_node color_output) (InS bump_node value_input)))))"

definition bump_to_material :: "nat \<Rightarrow> nat \<Rightarrow> nat \<Rightarrow> node_tree \<Rightarrow> bool \<times> node_tree" where
  "bump_to_material bump_node material tex_node g =
     (if outputs (nodes g ! bump_node) \<noteq> [] then
        (let bump_output =
               (case find_idx (\<lambda>k. contains ''bump'' (lower (sock_name k)))
                       (outputs (nodes g ! bump_node)) of
                  Some i \<Rightarrow> i | None \<Rightarrow> 0)
         in case find_bump_socket (nodes g ! material) of
              Some i \<Rightarrow>
                (True, print (''Connected Bump node to '' @ sock_name (inputs (nodes g ! material) ! i))
                         (add_label tex_node ('' '' @ arrow @ ''Bump Node'')
                            (links_new g (OutS bump_node bump_output) (InS material i))))
            | None \<Rightarrow> (False, print ''Bump input not found in material node'' g))
      else (False, g))"

definition setup_bump :: "host \<Rightarrow> node_tree \<Rightarrow> nat \<Rightarrow> nat \<Rightarrow> bool \<times> node_tree" where
  "setup_bump h g material tex_node =
     (case nodes_new h g ''LuxCoreNodeTexBump'' of
        Inl e \<Rightarrow> (False, print (''Cannot create Bump node: '' @ e) g)
      | Inr (bump_node, g1) \<Rightarrow>
          (case bump_from_texture bump_node tex_node
                  (bump_set_defaults bump_node (set_label bump_node ''Bump'' g1)) of
             None \<Rightarrow> (False, print ''Value input not found in Bump node''
                                (bump_set_defaults bump_node (set_label bump_node ''Bump'' g1)))
           | Some g2 \<Rightarrow> bump_to_material bump_node material tex_node g2))"

text \<open>
  \<open>setup_combined_texture\<close> (lines 646-744): the splitter of an ORM or ORS texture.
  The texture goes to the splitter's first input (lines 659-672) and is set to non-colour
  (674-678); channel 1 goes to the roughness input (685-697), channel 2 to the metallic
  (ORM, 699-712) or specular (ORS, 714-727) input, and channel 0 is returned for the
  multiplication with the colour (729-737).
\<close>

definition split_from_texture :: "tex_type \<Rightarrow> nat \<Rightarrow> nat \<Rightarrow> node_tree \<Rightarrow> node_tree" where
  "split_from_texture ty combined_node split_node g =
     (if inputs (nodes g ! split_node) \<noteq> [] then
        (case color_output_of (nodes g ! combined_node) of
           Some color_output \<Rightarrow>
             print (''DEBUG: '' @ upper (type_name ty) @ '' connected to SplitFloat3'')
               (links_new g (OutS combined_node color_output) (InS split_node 0))
         | None \<Rightarrow> g)
      else g)"

definition set_non_color :: "nat \<Rightarrow> node_tree \<Rightarrow> node_tree" where
  "set_non_color tex_node g =
     (if hasattr (nodes g ! tex_node) ''color_space''
      then setattr tex_node ''color_space'' (PStr ''Non-Color'') g
      else if hasattr (nodes g ! tex_node) ''gamma'' then setattr tex_node ''gamma'' (PNum 1) g
      else g)"

definition connect_channel ::
    "nat \<Rightarrow> nat \<Rightarrow> nat \<Rightarrow> string \<Rightarrow> string \<Rightarrow> string \<Rightarrow> node_tree \<Rightarrow> node_tree" where
  "connect_channel split_node ch material sname frag what g =
     (if length (outputs (nodes g ! split_node)) > ch then
        (case sock_named sname (inputs (nodes g ! material)) of
           Some i \<Rightarrow> print (''DEBUG: Channel '' @ what @ '' connected'')
                       (links_new g (OutS split_node ch) (InS material i))
         | None \<Rightarrow>
             (case find_idx (\<lambda>k. contains frag (lower (sock_name k))) (inputs (nodes g ! material)) of
                Some i \<Rightarrow> print (''DEBUG: Channel '' @ what @ '' connected to ''
                                   @ sock_name (inputs (nodes g ! material) ! i))
                            (links_new g (OutS split_node ch) (InS material i))
              | None \<Rightarrow> g))
      else g)"

definition split_channels :: "tex_type \<Rightarrow> nat \<Rightarrow> nat \<Rightarrow> node_tree \<Rightarrow> node_tree" where
  "split_channels ty split_node material g =
     (if ty = Orm then
        connect_channel split_node 2 material ''Metallic'' ''metal'' ''B (Metallic)''
          (connect_channel split_node 1 material ''Roughness'' ''rough'' ''G (Roughness)'' g)
      else if ty = Ors then
        connect_channel split_node 2 material ''Specular'' ''spec'' ''B (Specular)''
          (connect_channel split_node 1 material ''Roughness'' ''rough'' ''G (Roughness)'' g)
      else connect_channel split_node 1 material ''Roughness'' ''rough'' ''G (Roughness)'' g)"

definition split_result :: "tex_type \<Rightarrow> nat \<Rightarrow> nat \<Rightarrow> node_tree \<Rightarrow> sock option \<times> node_tree" where
  "split_result ty combined_node split_node g =
     (if outputs (nodes g ! split_node) \<noteq> [] then
        (Some (OutS split_node 0),
         set_label combined_node
           (upper (type_name ty) @ '': '' @ label_or_name (nodes g ! combined_node))
           (print ''DEBUG: Channel R (AO) ready for multiplication'' g))
      else (None, g))"

definition setup_combined_texture ::
    "host \<Rightarrow> node_tree \<Rightarrow> nat \<Rightarrow> nat \<Rightarrow> tex_type \<Rightarrow> sock option \<times> node_tree" where
  "setup_combined_texture h g material combined_node ty =
     (case nodes_new h (print (''DEBUG: Configuring '' @ type_name ty @ '' texture: ''
                                 @ name (nodes g ! combined_node)) g)
             ''LuxCoreNodeTexSplitFloat3'' of
        Inl e \<Rightarrow> (None, print (''DEBUG: Cannot create SplitFloat3 node: '' @ e)
                          (print (''DEBUG: Configuring '' @ type_name ty @ '' texture: ''
                                    @ name (nodes g ! combined_node)) g))
      | Inr (split_node, g1) \<Rightarrow>
          split_result ty combined_node split_node
            (split_channels ty split_node material
               (set_non_color combined_node
                  (split_from_texture ty combined_node split_node
                     (set_label split_node (''Split '' @ upper (type_name ty)) g1)))))"

definition displacement_node_types :: "string list" where
  "displacement_node_types = [''LuxCoreNodeShapeHeightDisplacement'',
     ''LuxCoreNodeMatHeightDisplacement'', ''LuxCoreNodeMatDisplacement'',
     ''LuxCoreNodeDisplacement'', ''luxcore_material_height_displacement'',
     ''luxcore_material_displacement'']"

definition smooth_normals_props :: "string list" where
  "smooth_normals_props = [''normal_smooth'', ''smooth_normals'', ''smooth_normal'',
     ''normal_smoothing'']"

definition is_shape :: "socket \<Rightarrow> bool" where
  "is_shape k = (sock_name k = ''Shape'' \<or> contains ''shape'' (lower (sock_name k)))"

text \<open>
  \<open>setup_displacement\<close> (lines 746-864). It returns nothing; without a material output
  node, or when the host accepts no displacement kind, it returns at once and leaves no
  message. Otherwise: the displacement node's height, scale and smooth normals (lines
  775-793), the texture into its height input (795-812), the subdivision node into its
  shape input (814-842), and its shape output into the material output (844-861).
\<close>

definition displacement_props :: "nat \<Rightarrow> nat \<Rightarrow> rat \<Rightarrow> node_tree \<Rightarrow> node_tree" where
  "displacement_props dn height_node height g =
     (let d = nodes g ! dn;
          set_height = (if hasattr d ''height'' then setattr dn ''height'' (PNum height)
                        else if hasattr d ''value'' then setattr dn ''value'' (PNum height)
                        else id);
          set_scale = (if hasattr d ''scale''
                       then (\<lambda>x. set_label height_node
                                    (label_or_name (nodes x ! height_node) @ '' [Scale:0.02]'')
                                    (setattr dn ''scale'' (PNum (2 / 100)) x))
                       else id);
          set_smooth = (case find (hasattr d) smooth_normals_props of
                          Some p \<Rightarrow> (\<lambda>x. add_label height_node '' [Smooth]'' (setattr dn p (PBool True) x))
                        | None \<Rightarrow> id)
      in set_smooth (set_scale (set_height g)))"

definition displacement_from_texture :: "nat \<Rightarrow> nat \<Rightarrow> node_tree \<Rightarrow> node_tree" where
  "displacement_from_texture dn height_node g =
     (if inputs (nodes g ! dn) \<noteq> [] then
        (case (first_named [''Height'', ''height'', ''Displacement'', ''displacement'',
                            ''Texture'', ''texture''] (inputs (nodes g ! dn)),
               color_output_of (nodes g ! height_node)) of
           (Some i, Some co) \<Rightarrow> add_label height_node ('' '' @ arrow @ ''Height'')
                                 (links_new g (OutS height_node co) (InS dn i))
         | _ \<Rightarrow> g)
      else g)"

definition first_shape_output :: "node \<Rightarrow> nat option" where
  "first_shape_output n =
     (case find_idx is_shape (outputs n) of
        Some i \<Rightarrow> Some i
      | None \<Rightarrow> (if outputs n \<noteq> [] then Some 0 else None))"

definition subdivision_to_displacement :: "nat \<Rightarrow> nat \<Rightarrow> node_tree \<Rightarrow> node_tree" where
  "subdivision_to_displacement sn dn g =
     (case (find_idx is_shape (inputs (nodes g ! dn)), first_shape_output (nodes g ! sn)) of
        (Some shape_input_disp, Some so) \<Rightarrow>
          add_label sn ('' '' @ arrow @ ''Shape'') (links_new g (OutS sn so) (InS dn shape_input_disp))
      | _ \<Rightarrow> g)"

definition add_subdivision :: "host \<Rightarrow> nat \<Rightarrow> node_tree \<Rightarrow> node_tree" where
  "add_subdivision h dn g =
     (case nodes_new h g ''LuxCoreNodeShapeSubdiv'' of
        Inl e \<Rightarrow> print (''Error creating Subdivision node: '' @ e) g
      | Inr (sn, g1) \<Rightarrow> subdivision_to_displacement sn dn (set_label sn ''Subdivision'' g1))"

definition displacement_to_output :: "nat \<Rightarrow> nat \<Rightarrow> node_tree \<Rightarrow> node_tree" where
  "displacement_to_output dn mo g =
     (if outputs (nodes g ! dn) \<noteq> [] \<and> inputs (nodes g ! mo) \<noteq> [] then
        (case first_named [''Displacement'', ''displacement'', ''Shape'', ''shape'']
                (inputs (nodes g ! mo)) of
           Some i \<Rightarrow>
             add_label dn ('' '' @ arrow @ sock_name (inputs (nodes g ! mo) ! i))
               (links_new g
                  (OutS dn (case sock_named ''Shape'' (outputs (nodes g ! dn)) of Some k \<Rightarrow> k | None \<Rightarrow> 0))
                  (InS mo i))
         | None \<Rightarrow> g)
      else g)"

definition setup_displacement ::
    "host \<Rightarrow> node_tree \<Rightarrow> nat \<Rightarrow> nat \<Rightarrow> nat option \<Rightarrow> rat \<Rightarrow> node_tree" where
  "setup_displacement h g material height_node mat_output height =
     (case mat_output of
        None \<Rightarrow> g
      | Some mo \<Rightarrow>
          (case new_first_accepted h g displacement_node_types of
             None \<Rightarrow> g
           | Some (dn, g1) \<Rightarrow>
               displacement_to_output dn mo
                 (add_subdivision h dn
                    (displacement_from_texture dn height_node
                       (displacement_props dn height_node height
                          (set_label dn ''Height Displacement'' g1))))))"

definition math_node_types :: "string list" where
  "math_node_types = [''LuxCoreNodeTexMath'', ''LuxCoreNodeMath'', ''LuxCoreNodeTexMix'',
     ''LuxCoreNodeTexMixColor'', ''luxcore_tex_math'', ''luxcore_tex_mix'']"

text \<open>
  \<open>setup_ao_multiply\<close> (lines 866-1003). The loop over the math node's inputs (lines
  906-928) carries \<open>(color_connected, ao_connected)\<close>; the first branch is entered by
  name or at index 0, the second by name or at index 1. Then the first two inputs are
  used for what is still unconnected (930-949), and the math node's output goes to
  \<open>Base Color\<close> (951-973). Without a math node the colour is linked directly (975-988).
\<close>

definition label_ao_source :: "nat option \<Rightarrow> node_tree \<Rightarrow> node_tree" where
  "label_ao_source ao_src g =
     (case ao_src of Some a \<Rightarrow> add_label a ('' '' @ arrow @ ''Math'') g | None \<Rightarrow> g)"

definition color_to_math :: "nat \<Rightarrow> nat \<Rightarrow> nat \<Rightarrow> node_tree \<Rightarrow> node_tree option" where
  "color_to_math math_node col i g =
     (case color_output_of (nodes g ! col) of
        Some co \<Rightarrow> Some (add_label col ('' '' @ arrow @ ''Math'')
                           (links_new g (OutS col co) (InS math_node i)))
      | None \<Rightarrow> None)"

definition ao_to_math :: "nat \<Rightarrow> sock \<Rightarrow> nat option \<Rightarrow> nat \<Rightarrow> node_tree \<Rightarrow> node_tree" where
  "ao_to_math math_node ao_channel ao_src i g =
     label_ao_source ao_src (links_new g ao_channel (InS math_node i))"

definition ao_input_step ::
    "nat \<Rightarrow> nat \<Rightarrow> sock \<Rightarrow> nat option \<Rightarrow> bool \<times> bool \<times> node_tree \<Rightarrow> nat \<Rightarrow> bool \<times> bool \<times> node_tree" where
  "ao_input_step math_node col ao_channel ao_src st i =
     (let color_connected = fst st; ao_connected = fst (snd st); g = snd (snd st);
          input_name = lower (sock_name (inputs (nodes g ! math_node) ! i))
      in if \<not> color_connected \<and>
            (contains ''value1'' input_name \<or> contains ''input1'' input_name \<or>
             contains ''a'' input_name \<or> contains ''color1'' input_name \<or> i = 0) then
           (case color_to_math math_node col i g of
              Some g' \<Rightarrow> (True, ao_connected, g')
            | None \<Rightarrow> st)
         else if \<not> ao_connected \<and>
            (contains ''value2'' input_name \<or> contains ''input2'' input_name \<or>
             contains ''b'' input_name \<or> contains ''color2'' input_name \<or> i = 1) then
           (color_connected, True, ao_to_math math_node ao_channel ao_src i g)
         else st)"

definition ao_fallback_color :: "nat \<Rightarrow> nat \<Rightarrow> bool \<times> bool \<times> node_tree \<Rightarrow> bool \<times> bool \<times> node_tree" where
  "ao_fallback_color math_node col st =
     (if \<not> fst st \<and> inputs (nodes (snd (snd st)) ! math_node) \<noteq> [] then
        (case color_to_math math_node col 0 (snd (snd st)) of
           Some g' \<Rightarrow> (True, fst (snd st), g')
         | None \<Rightarrow> st)
      else st)"

definition ao_fallback_ao ::
    "nat \<Rightarrow> sock \<Rightarrow> nat option \<Rightarrow> bool \<times> bool \<times> node_tree \<Rightarrow> bool \<times> bool \<times> node_tree" where
  "ao_fallback_ao math_node ao_channel ao_src st =
     (if \<not> fst (snd st) \<and> length (inputs (nodes (snd (snd st)) ! math_node)) > 1
      then (fst st, True, ao_to_math math_node ao_channel ao_src 1 (snd (snd st)))
      else st)"

definition math_output_of :: "node \<Rightarrow> nat" where
  "math_output_of m =
     (case find_idx (\<lambda>k. contains ''value'' (lower (sock_name k)) \<or>
                          contains ''color'' (lower (sock_name k)) \<or>
                          contains ''result'' (lower (sock_name k))) (outputs m) of
        Some i \<Rightarrow> i | None \<Rightarrow> 0)"

definition math_to_base_color :: "nat \<Rightarrow> nat \<Rightarrow> bool \<times> bool \<times> node_tree \<Rightarrow> node_tree" where
  "math_to_base_color math_node material st =
     (let g = snd (snd st)
      in if fst st \<and> fst (snd st) then
           (if outputs (nodes g ! math_node) \<noteq> [] then
              (case sock_named ''Base Color'' (inputs (nodes g ! material)) of
                 Some b \<Rightarrow> add_label math_node ('' '' @ arrow @ ''Base Color'')
                             (links_new g (OutS math_node (math_output_of (nodes g ! math_node)))
                                (InS material b))
               | None \<Rightarrow> print (''Socket '' @ [CHR 0x27] @ ''Base Color'' @ [CHR 0x27]
                                  @ '' not found in Disney node'') g)
            else print ''Math node has no output'' g)
         else print ''Cannot connect both textures to Math node'' g)"

definition connect_color_directly :: "node_tree \<Rightarrow> nat \<Rightarrow> nat \<Rightarrow> bool \<times> node_tree" where
  "connect_color_directly g material col =
     (case (color_output_of (nodes g ! col),
            sock_named ''Base Color'' (inputs (nodes g ! material))) of
        (Some co, Some b) \<Rightarrow>
          (True, add_label col ('' '' @ arrow @ ''Base Color'')
                   (links_new g (OutS col co) (InS material b)))
      | _ \<Rightarrow> (False, g))"

definition math_set_multiply :: "nat \<Rightarrow> node_tree \<Rightarrow> node_tree" where
  "math_set_multiply math_node g =
     (if hasattr (nodes g ! math_node) ''operation''
      then setattr math_node ''operation'' (PStr ''MULTIPLY'') g else g)"

definition setup_ao_multiply ::
    "host \<Rightarrow> node_tree \<Rightarrow> nat \<Rightarrow> nat \<Rightarrow> sock \<Rightarrow> nat option \<Rightarrow> node_tree" where
  "setup_ao_multiply h g material col ao_channel ao_src =
     (case new_first_accepted h g math_node_types of
        None \<Rightarrow>
          snd (connect_color_directly
                 (print ''Math node not available. AO connection not possible.'' g) material col)
      | Some (math_node, g1) \<Rightarrow>
          math_to_base_color math_node material
            (ao_fallback_ao math_node ao_channel ao_src
               (ao_fallback_color math_node col
                  (foldl (ao_input_step math_node col ao_channel ao_src)
                     (False, False, math_set_multiply math_node (set_label math_node ''AO Multiply'' g1))
                     [0..<length (inputs (nodes g1 ! math_node))]))))"

section \<open>\<open>luxcore_texture_connect.py\<close>: \<open>connect_textures_to_material\<close> and \<open>execute\<close>\<close>

text \<open>The variables of \<open>connect_textures_to_material\<close> that the second pass updates.\<close>

record run_state =
  tree :: node_tree
  connected_count :: nat
  color_node :: "nat option"
  ao_node :: "nat option"
  normal_nodes :: "nat list"
  height_nodes :: "nat list"
  orm_node :: "nat option"
  ors_node :: "nat option"
  orm_ao_channel :: "sock option"
  ors_ao_channel :: "sock option"
  covered_types :: "tex_type set"

text \<open>The arguments that stay fixed during one call.\<close>

record run_args =
  material_node :: nat
  mapping_node :: "nat option"
  create_uv_node :: bool
  material_output :: "nat option"
  displacement_height :: rat

type_synonym tex_item = "nat \<times> tex_type \<times> tex_info"

text \<open>First pass (lines 198-221): every texture node that some keyword identifies.\<close>

fun first_pass :: "node_tree \<Rightarrow> nat list \<Rightarrow> tex_item list \<times> node_tree" where
  "first_pass g [] = ([], g)"
| "first_pass g (t # ts) =
     (case identify_connect (name (nodes g ! t)) (image_name (nodes g ! t)) of
        Some (ty, info) \<Rightarrow>
          (let (items, g') = first_pass (print (''Texture identified: '' @ name (nodes g ! t)
                                                 @ '' -> '' @ type_name ty) g) ts
           in ((t, ty, info) # items, g'))
      | None \<Rightarrow> first_pass g ts)"

text \<open>
  Line 223: \<open>texture_info_list.sort(key=priority of the type, reverse=True)\<close>, a stable
  sort by descending priority.
\<close>

definition priority_of :: "tex_type \<Rightarrow> int" where
  "priority_of ty = (case map_of texture_mapping_connect ty of Some i \<Rightarrow> priority i | None \<Rightarrow> 0)"

definition sort_by_priority :: "tex_item list \<Rightarrow> tex_item list" where
  "sort_by_priority items = sort_key (\<lambda>x. - priority_of (fst (snd x))) items"

text \<open>One turn of the second pass (lines 237-356).\<close>

definition connect_normal :: "run_args \<Rightarrow> run_state \<Rightarrow> nat \<Rightarrow> run_state" where
  "connect_normal a st tex_node =
     (let g = set_label tex_node (''NORMAL: '' @ label_or_name (nodes (tree st) ! tex_node)) (tree st);
          st1 = st\<lparr>normal_nodes := normal_nodes st @ [tex_node], tree := g\<rparr>
      in case (find_bump_socket (nodes g ! material_node a), color_output_of (nodes g ! tex_node)) of
           (Some socket_found, Some color_output) \<Rightarrow>
             st1\<lparr>tree := activate_normal_map
                            (add_label tex_node ('' '' @ arrow @ ''Bump'')
                               (links_new g (OutS tex_node color_output) (InS (material_node a) socket_found)))
                            tex_node,
                 connected_count := connected_count st + 1\<rparr>
         | _ \<Rightarrow> st1)"

definition connect_direct :: "run_args \<Rightarrow> run_state \<Rightarrow> tex_item \<Rightarrow> run_state" where
  "connect_direct a st item =
     (case item of (tex_node, ty, info) \<Rightarrow>
        (let g = tree st
         in case socket info of
              None \<Rightarrow> st
            | Some s \<Rightarrow>
                (if s = [] then st
                 else case (sock_named s (inputs (nodes g ! material_node a)),
                            color_output_of (nodes g ! tex_node)) of
                        (Some i, Some color_output) \<Rightarrow>
                          st\<lparr>tree := set_label tex_node
                                         (upper (type_name ty) @ '': '' @ label_or_name (nodes g ! tex_node)
                                            @ '' '' @ arrow @ s)
                                         (links_new g (OutS tex_node color_output) (InS (material_node a) i)),
                             connected_count := connected_count st + 1\<rparr>
                      | _ \<Rightarrow> st)))"

definition process_texture :: "host \<Rightarrow> run_args \<Rightarrow> run_state \<Rightarrow> tex_item \<Rightarrow> run_state" where
  "process_texture h a st item =
     (case item of (tex_node, ty, info) \<Rightarrow>
        if ty \<in> {Metallic, Roughness, Ao, Specular} \<and> ty \<in> covered_types st then
          st\<lparr>tree := print (''Texture '' @ type_name ty @ '' ('' @ name (nodes (tree st) ! tex_node)
                               @ '') ignorata perch'' @ [CHR 0xC3, CHR 0xA9] @ '' gi''
                               @ [CHR 0xC3, CHR 0xA0] @ '' coperta da ORM/ORS'') (tree st)\<rparr>
        else
          (let g0 = (case mapping_node a of
                       Some m \<Rightarrow> (if create_uv_node a
                                   then snd (connect_mapping_to_texture (tree st) m tex_node)
                                   else tree st)
                     | None \<Rightarrow> tree st)
           in if ty = Orm then
                (let (ch, g1) = setup_combined_texture h g0 (material_node a) tex_node ty
                 in st\<lparr>tree := g1,
                        covered_types := covered_types st \<union> {Metallic, Roughness, Ao},
                        orm_node := Some tex_node,
                        orm_ao_channel := ch,
                        connected_count := connected_count st + (if ch \<noteq> None then 1 else 0)\<rparr>)
              else if ty = Ors then
                (let (ch, g1) = setup_combined_texture h g0 (material_node a) tex_node ty
                 in st\<lparr>tree := g1,
                        covered_types := covered_types st \<union> {Specular, Roughness, Ao},
                        ors_node := Some tex_node,
                        ors_ao_channel := ch,
                        connected_count := connected_count st + (if ch \<noteq> None then 1 else 0)\<rparr>)
              else
                (let st1 = st\<lparr>tree := g0, covered_types := insert ty (covered_types st)\<rparr>
                 in if ty = Color then
                      st1\<lparr>color_node := Some tex_node,
                          tree := set_label tex_node (''COLOR: '' @ label_or_name (nodes g0 ! tex_node)) g0\<rparr>
                    else if ty = Ao then
                      st1\<lparr>ao_node := Some tex_node,
                          tree := set_label tex_node (''AO: '' @ label_or_name (nodes g0 ! tex_node)) g0\<rparr>
                    else if ty = Normal then connect_normal a st1 tex_node
                    else if ty = Bump then
                      (case setup_bump h g0 (material_node a) tex_node of
                         (True, g1) \<Rightarrow>
                           st1\<lparr>tree := set_label tex_node (''BUMP: '' @ label_or_name (nodes g1 ! tex_node)) g1,
                               connected_count := connected_count st + 1\<rparr>
                       | (False, g1) \<Rightarrow> st1\<lparr>tree := g1\<rparr>)
                    else if ty = Height then
                      (let g1 = setup_displacement h g0 (material_node a) tex_node (material_output a)
                                  (displacement_height a)
                       in st1\<lparr>height_nodes := height_nodes st @ [tex_node],
                              tree := set_label tex_node (''HEIGHT: '' @ label_or_name (nodes g1 ! tex_node)) g1,
                              connected_count := connected_count st + 1\<rparr>)
                    else if ty = Emission then
                      (case setup_emission h g0 (material_node a) tex_node of
                         (True, g1) \<Rightarrow>
                           st1\<lparr>tree := set_label tex_node (''EMISSION: '' @ label_or_name (nodes g1 ! tex_node)) g1,
                               connected_count := connected_count st + 1\<rparr>
                       | (False, g1) \<Rightarrow> st1\<lparr>tree := g1\<rparr>)
                    else connect_direct a st1 (tex_node, ty, info))))"

definition second_pass :: "host \<Rightarrow> run_args \<Rightarrow> run_state \<Rightarrow> tex_item list \<Rightarrow> run_state" where
  "second_pass h a st items = foldl (process_texture h a) st items"

text \<open>
  Lines 358-372: the occlusion channel. A standalone AO texture with an output comes
  first, then channel 0 of the ORM splitter, then channel 0 of the ORS splitter.
\<close>

definition select_ao_channel :: "run_state \<Rightarrow> sock option" where
  "select_ao_channel st =
     (case (case ao_node st of
              Some an \<Rightarrow> map_option (OutS an) (color_output_of (nodes (tree st) ! an))
            | None \<Rightarrow> None) of
        Some ch \<Rightarrow> Some ch
      | None \<Rightarrow> (if orm_ao_channel st \<noteq> None then orm_ao_channel st
                 else if ors_ao_channel st \<noteq> None then ors_ao_channel st
                 else None))"

definition first_some :: "'a option \<Rightarrow> 'a option \<Rightarrow> 'a option" where
  "first_some x y = (case x of Some v \<Rightarrow> Some v | None \<Rightarrow> y)"

text \<open>Lines 374-392: colour multiplied by occlusion, or the colour alone.\<close>

definition combine_color_ao :: "host \<Rightarrow> run_args \<Rightarrow> run_state \<Rightarrow> run_state" where
  "combine_color_ao h a st =
     (case color_node st of
        None \<Rightarrow> st
      | Some cn \<Rightarrow>
          (case select_ao_channel st of
             Some ao_channel \<Rightarrow>
               st\<lparr>tree := setup_ao_multiply h (tree st) (material_node a) cn ao_channel
                             (first_some (ao_node st) (first_some (orm_node st) (ors_node st))),
                  connected_count := connected_count st + 1\<rparr>
           | None \<Rightarrow>
               (case connect_color_directly (tree st) (material_node a) cn of
                  (True, g) \<Rightarrow> st\<lparr>tree := g, connected_count := connected_count st + 1\<rparr>
                | (False, g) \<Rightarrow> st)))"

definition init_state :: "node_tree \<Rightarrow> run_state" where
  "init_state g = \<lparr>tree = g, connected_count = 0, color_node = None, ao_node = None,
     normal_nodes = [], height_nodes = [], orm_node = None, ors_node = None,
     orm_ao_channel = None, ors_ao_channel = None, covered_types = {}\<rparr>"

definition connect_textures_to_material ::
    "host \<Rightarrow> node_tree \<Rightarrow> run_args \<Rightarrow> nat list \<Rightarrow> run_state" where
  "connect_textures_to_material h g a texture_nodes =
     (let (items, g1) = first_pass g texture_nodes
      in combine_color_ao h a (second_pass h a (init_state g1) (sort_by_priority items)))"

text \<open>\<open>create_2d_mapping_node\<close> (lines 82-103) and \<open>find_or_create_material_output\<close> (105-117).\<close>

definition create_2d_mapping_node :: "host \<Rightarrow> node_tree \<Rightarrow> nat option \<times> node_tree" where
  "create_2d_mapping_node h g =
     (case new_first_accepted h g [''LuxCoreNodeTexMapping2D'', ''LuxCoreNodeMapping2D'',
                                   ''luxcore_tex_mapping2d'', ''LuxCoreNodeUV''] of
        Some (m, g1) \<Rightarrow> (Some m, set_label m ''Shared UV Mapping'' g1)
      | None \<Rightarrow> (None, g))"

definition find_or_create_material_output :: "host \<Rightarrow> node_tree \<Rightarrow> nat option \<times> node_tree" where
  "find_or_create_material_output h g =
     (case find_idx (\<lambda>n. bl_idname n = ''LuxCoreNodeMatOutput'') (nodes g) of
        Some i \<Rightarrow> (Some i, g)
      | None \<Rightarrow>
          (case nodes_new h g ''LuxCoreNodeMatOutput'' of
             Inr (i, g1) \<Rightarrow> (Some i, set_label i ''Material Output'' g1)
           | Inl e \<Rightarrow> (None, g)))"

definition texture_node_kinds :: "string list" where
  "texture_node_kinds = [''LuxCoreNodeTexImagemap'', ''LuxCoreNodeTexImage'', ''ShaderNodeTexImage'']"

definition disney_node_types :: "string list" where
  "disney_node_types = [''LuxCoreNodeMatDisney'', ''LuxCoreNodeMatDisney2'', ''luxcore_material_disney'']"

text \<open>Decimal digits of a number, for the report \<open>Connected n textures\<close>.\<close>

fun str_of_nat :: "nat \<Rightarrow> string" where
  "str_of_nat n = (if n < 10 then [digits ! n] else str_of_nat (n div 10) @ [digits ! (n mod 10)])"

datatype op_result = FINISHED | CANCELLED

text \<open>
  \<open>execute\<close> (lines 47-80), on the active node \<open>disney_node\<close> that \<open>poll\<close> has checked.
  The final layout of the nodes (\<open>organize_nodes\<close>) only moves them and is left out.
\<close>

definition execute :: "host \<Rightarrow> node_tree \<Rightarrow> nat \<Rightarrow> bool \<Rightarrow> op_result \<times> node_tree" where
  "execute h g disney_node create_uv =
     (let texture_nodes = filter (\<lambda>i. bl_idname (nodes g ! i) \<in> set texture_node_kinds)
                            [0..<length (nodes g)]
      in if texture_nodes = [] then
           (CANCELLED, report ''WARNING'' ''No texture nodes found in the node tree'' g)
         else
           (let (mapping, g1) = (if create_uv then create_2d_mapping_node h g else (None, g));
                (mo, g2) = find_or_create_material_output h g1;
                st = connect_textures_to_material h g2
                       \<lparr>material_node = disney_node, mapping_node = mapping, create_uv_node = create_uv,
                        material_output = mo, displacement_height = 1 / 100\<rparr> texture_nodes
            in if connected_count st > 0
               then (FINISHED, report ''INFO'' (''Connected '' @ str_of_nat (connected_count st)
                                                  @ '' textures'') (tree st))
               else (FINISHED, report ''WARNING'' ''No textures were connected'' (tree st))))"

section \<open>\<open>luxcore_texture_extractor.py\<close>: multiplying occlusion with colour\<close>

text \<open>
  \<open>multiply_ao_with_color\<close> (lines 1402-1495; the copy in
  \<open>luxcore_connect_selected.py\<close>, lines 700-793, is the same). Without a colour output
  it creates a white constant; when the host refuses that node the exception ends the
  function. Before the multiply output is linked, the first link into \<open>Base Color\<close> is
  removed.
\<close>

definition assign_attr :: "nat \<Rightarrow> string \<Rightarrow> pyval \<Rightarrow> node_tree \<Rightarrow> node_tree" where
  "assign_attr i k v = upd_node i (\<lambda>n. n\<lparr>attrs := (if hasattr n k
       then map (\<lambda>(k', v'). if k' = k then (k', v) else (k', v')) (attrs n)
       else attrs n @ [(k, v)])\<rparr>)"

definition remove_first_link_to :: "sock \<Rightarrow> node_tree \<Rightarrow> node_tree" where
  "remove_first_link_to dst g =
     (case find (\<lambda>l. snd l = dst) (links g) of Some l \<Rightarrow> links_remove g l | None \<Rightarrow> g)"

definition multiply_set_operation :: "nat \<Rightarrow> node_tree \<Rightarrow> node_tree" where
  "multiply_set_operation multiply_node g =
     (if hasattr (nodes g ! multiply_node) ''operation''
      then setattr multiply_node ''operation'' (PStr ''MULTIPLY'') g
      else if hasattr (nodes g ! multiply_node) ''mode''
      then setattr multiply_node ''mode'' (PStr ''scale'') g
      else g)"

text \<open>Lines 1437-1453: the colour output, or the output of a new white constant.\<close>

definition color_or_white :: "host \<Rightarrow> nat option \<Rightarrow> node_tree \<Rightarrow> string + (sock option \<times> node_tree)" where
  "color_or_white h col g =
     (case (case col of Some c \<Rightarrow> map_option (OutS c) (color_output_of (nodes g ! c)) | None \<Rightarrow> None) of
        Some co \<Rightarrow> Inr (Some co, g)
      | None \<Rightarrow>
          (case nodes_new h g ''LuxCoreNodeTexConstantFloat3'' of
             Inl e \<Rightarrow> Inl e
           | Inr (white_node, g1) \<Rightarrow>
               Inr (if outputs (nodes g1 ! white_node) \<noteq> [] then Some (OutS white_node 0) else None,
                    set_label white_node ''White''
                      (assign_attr white_node ''value'' (PVec [1, 1, 1]) g1))))"

text \<open>Lines 1455-1466: the colour into the first input, the occlusion into the second.\<close>

definition multiply_inputs ::
    "nat \<Rightarrow> sock option \<Rightarrow> sock option \<Rightarrow> nat option \<Rightarrow> node_tree \<Rightarrow> node_tree" where
  "multiply_inputs multiply_node color_output ao_channel ao_source_node g =
     (let g1 = (case color_output of
                  Some co \<Rightarrow>
                    (if inputs (nodes g ! multiply_node) \<noteq> []
                     then print ''DEBUG: Color connected to multiply node''
                            (links_new g co (InS multiply_node 0))
                     else g)
                | None \<Rightarrow> g)
      in case ao_channel of
           Some ao \<Rightarrow>
             (if length (inputs (nodes g1 ! multiply_node)) > 1 then
                (case ao_source_node of
                   Some a \<Rightarrow> (\<lambda>x. set_label a (''AO: '' @ label_or_name (nodes x ! a)) x)
                 | None \<Rightarrow> id)
                  (print ''DEBUG: AO channel connected to multiply node''
                     (links_new g1 ao (InS multiply_node 1)))
              else g1)
         | None \<Rightarrow> g1)"

text \<open>Lines 1468-1488: the multiply output replaces what was linked to \<open>Base Color\<close>.\<close>

definition multiply_to_base_color :: "nat \<Rightarrow> nat \<Rightarrow> node_tree \<Rightarrow> bool \<times> node_tree" where
  "multiply_to_base_color multiply_node mat g =
     (if outputs (nodes g ! multiply_node) \<noteq> [] then
        (case sock_named ''Base Color'' (inputs (nodes g ! mat)) of
           Some b \<Rightarrow>
             (True, print ''DEBUG: Multiply output connected to Base Color''
                      (links_new (remove_first_link_to (InS mat b) g)
                         (OutS multiply_node
                            (case find_idx (\<lambda>k. lower (sock_name k) \<in> set [''color'', ''value'', ''result''])
                                    (outputs (nodes g ! multiply_node)) of
                               Some i \<Rightarrow> i | None \<Rightarrow> 0))
                         (InS mat b)))
         | None \<Rightarrow> (False, g))
      else (False, g))"

definition multiply_ao_with_color ::
    "host \<Rightarrow> node_tree \<Rightarrow> nat \<Rightarrow> nat option \<Rightarrow> sock option \<Rightarrow> nat option \<Rightarrow> bool \<times> node_tree" where
  "multiply_ao_with_color h g mat col ao_channel ao_source_node =
     (case new_first_accepted h g math_node_types of
        None \<Rightarrow> (False, print ''ERROR: Cannot create multiply node'' g)
      | Some (multiply_node, g1) \<Rightarrow>
          (case color_or_white h col
                  (multiply_set_operation multiply_node (set_label multiply_node ''AO Multiply'' g1)) of
             Inl e \<Rightarrow> (False, print (''ERROR in multiply_ao_with_color: '' @ e)
                                (multiply_set_operation multiply_node
                                   (set_label multiply_node ''AO Multiply'' g1)))
           | Inr (color_output, g2) \<Rightarrow>
               multiply_to_base_color multiply_node mat
                 (multiply_inputs multiply_node color_output ao_channel ao_source_node g2)))"

text \<open>
  The occlusion part of the extractor's \<open>connect_textures_to_material\<close> (lines 975-1048),
  after the first pass has found the occlusion, colour, ORM and ORS textures and the
  combined textures have been split. Without a colour texture among the classified ones
  it looks through the tree for a texture node with a colour keyword in its names; the
  last such node is kept.
\<close>

record ao_inputs =
  ao_texture_node :: "nat option"
  color_texture_node :: "nat option"
  orm_tex :: "nat option"
  ors_tex :: "nat option"
  orm_channel :: "sock option"
  ors_channel :: "sock option"

text \<open>\<open>connect_mapping_to_texture\<close> of the extractor (lines 1110-1127).\<close>

definition connect_mapping_to_texture_extractor :: "node_tree \<Rightarrow> nat \<Rightarrow> nat \<Rightarrow> bool \<times> node_tree" where
  "connect_mapping_to_texture_extractor g mapping tex_node =
     (let mn = nodes g ! mapping; tn = nodes g ! tex_node
      in if outputs mn \<noteq> [] \<and> inputs tn \<noteq> [] then
           (let i = (case find_idx (\<lambda>k. \<not> contains ''color'' (lower (sock_name k)) \<and>
                                         \<not> contains ''value'' (lower (sock_name k))) (inputs tn) of
                       Some i \<Rightarrow> i | None \<Rightarrow> 0)
            in (True, set_label tex_node (label_or_name tn @ '' [UV]'')
                        (links_new g (OutS mapping 0) (InS tex_node i))))
         else (False, g))"

definition map_uv :: "nat option \<Rightarrow> bool \<Rightarrow> nat \<Rightarrow> node_tree \<Rightarrow> node_tree" where
  "map_uv mapping create_uv tex_node g =
     (case mapping of
        Some m \<Rightarrow> (if create_uv then snd (connect_mapping_to_texture_extractor g m tex_node) else g)
      | None \<Rightarrow> g)"

definition color_keywords :: "string list" where
  "color_keywords = [''color'', ''diff'', ''diffuse'', ''albedo'', ''basecolor'', ''col'', ''base'']"

definition find_color_texture :: "node_tree \<Rightarrow> ao_inputs \<Rightarrow> nat option" where
  "find_color_texture g a =
     (case filter (\<lambda>i. bl_idname (nodes g ! i) \<in> set texture_node_kinds \<and>
                        Some i \<noteq> ao_texture_node a \<and> Some i \<noteq> orm_tex a \<and> Some i \<noteq> ors_tex a \<and>
                        first_keyword color_keywords
                          (search_text (name (nodes g ! i)) (image_name (nodes g ! i))) \<noteq> None)
                  [0..<length (nodes g)] of
        [] \<Rightarrow> None
      | is \<Rightarrow> Some (last is))"

definition ao_section_extractor ::
    "host \<Rightarrow> node_tree \<Rightarrow> nat \<Rightarrow> nat option \<Rightarrow> bool \<Rightarrow> ao_inputs \<Rightarrow> nat \<times> node_tree" where
  "ao_section_extractor h g mat mapping create_uv a =
     (let (ao_channel, g1) =
            (case (case ao_texture_node a of
                     Some t \<Rightarrow> (if outputs (nodes g ! t) \<noteq> [] then Some t else None)
                   | None \<Rightarrow> None) of
               Some t \<Rightarrow> (let g' = map_uv mapping create_uv t g
                          in (map_option (OutS t) (color_output_of (nodes g' ! t)), g'))
             | None \<Rightarrow> (if orm_channel a \<noteq> None then orm_channel a
                         else if ors_channel a \<noteq> None then ors_channel a else None, g))
      in case ao_channel of
           Some ch \<Rightarrow>
             (let g2 = print ''DEBUG: Setting up AO multiplication with Base Color...'' g1;
                  color_texture_for_ao = (case color_texture_node a of
                                            Some c \<Rightarrow> Some c
                                          | None \<Rightarrow> find_color_texture g2 a);
                  g3 = (case color_texture_for_ao of
                          Some c \<Rightarrow> map_uv mapping create_uv c g2
                        | None \<Rightarrow> g2)
              in case multiply_ao_with_color h g3 mat color_texture_for_ao (Some ch)
                        (first_some (ao_texture_node a) (first_some (orm_tex a) (ors_tex a))) of
                   (True, g4) \<Rightarrow> (1, print ''DEBUG: AO multiplied with Color'' g4)
                 | (False, g4) \<Rightarrow> (0, g4))
         | None \<Rightarrow>
             (case color_texture_node a of
                Some c \<Rightarrow>
                  (case connect_color_directly (map_uv mapping create_uv c g1) mat c of
                     (True, g2) \<Rightarrow> (1, g2)
                   | (False, g2) \<Rightarrow> (0, g2))
              | None \<Rightarrow> (0, g1)))"

section \<open>\<open>luxcore_texture_extractor.py\<close>: transferring the values of the principled node\<close>

text \<open>
  A floating-point number is modelled by the rational number it denotes. Python computes
  with 64-bit floats and the host keeps the resting values of its sockets as 32-bit
  floats, so the two operations of the value transfer that round are parameters of the
  model: \<open>py_sub fm a b\<close> is Python's \<open>a - b\<close>, and \<open>host_float fm v\<close> is the number
  that the host holds after the Python float \<open>v\<close> was assigned to one of its fields.
  Reading a resting value gives the number the host holds. The comparisons with
  \<open>0.001\<close> and \<open>0\<close> are exact: no number that a 32-bit float denotes lies between
  1/1000 and the 64-bit float that Python reads for \<open>0.001\<close>.
\<close>

record float_model =
  py_sub :: "rat \<Rightarrow> rat \<Rightarrow> rat"
  host_float :: "rat \<Rightarrow> rat"

definition stored :: "float_model \<Rightarrow> sockval \<Rightarrow> sockval" where
  "stored fm v = (case v of Scalar x \<Rightarrow> Scalar (host_float fm x)
                          | Vec xs \<Rightarrow> Vec (map (host_float fm) xs))"

text \<open>
  The table \<open>value_mapping\<close> of \<open>extract_principled_values\<close> (lines 200-216):
  source input, target input, invert flag, colour flag.
\<close>

definition value_mapping :: "(string \<times> string \<times> bool \<times> bool) list" where
  "value_mapping =
    [(''Base Color'', ''Base Color'', False, True),
     (''Metallic'', ''Metallic'', False, False),
     (''Roughness'', ''Roughness'', False, False),
     (''Specular IOR Level'', ''Specular'', False, False),
     (''Specular'', ''Specular'', False, False),
     (''Sheen Weight'', ''Sheen'', False, False),
     (''Sheen'', ''Sheen'', False, False),
     (''Sheen Tint'', ''Sheen Tint'', False, False),
     (''Coat Weight'', ''Clearcoat'', False, False),
     (''Clearcoat'', ''Clearcoat'', False, False),
     (''Coat Roughness'', ''Clearcoat Gloss'', True, False),
     (''Clearcoat Roughness'', ''Clearcoat Gloss'', True, False),
     (''Alpha'', ''Opacity'', False, False),
     (''Emission Color'', ''Emission Color'', False, True),
     (''Emission Strength'', ''Emission Strength'', False, False)]"

record value_info =
  val :: sockval
  is_color :: bool
  invert :: bool

text \<open>\<open>d[k] = v\<close> on a dictionary that keeps insertion order.\<close>

fun dict_set :: "'k \<Rightarrow> 'v \<Rightarrow> ('k \<times> 'v) list \<Rightarrow> ('k \<times> 'v) list" where
  "dict_set k v [] = [(k, v)]"
| "dict_set k v ((k', v') # d) = (if k' = k then (k, v) # d else (k', v') # dict_set k v d)"

text \<open>\<open>socket.is_linked\<close>: some link of the tree starts or ends at the socket.\<close>

definition is_linked :: "node_tree \<Rightarrow> sock \<Rightarrow> bool" where
  "is_linked g s = (\<exists>l \<in> set (links g). fst l = s \<or> snd l = s)"

text \<open>
  What one entry of the table reads from the principled node (lines 218-252). A missing
  or linked input gives nothing. A colour is read as the first three components of a
  vector; a scalar is converted with \<open>float\<close>, which raises on a vector, and inverted as
  \<open>1.0 - value\<close> when the entry says so. An input without a value raises too; the
  \<open>except\<close> branch goes on with the next entry.
\<close>

definition read_entry ::
    "float_model \<Rightarrow> node_tree \<Rightarrow> nat \<Rightarrow> string \<times> string \<times> bool \<times> bool \<Rightarrow> value_info option" where
  "read_entry fm g pn e =
     (let principled_input = fst e; inv_flag = fst (snd (snd e)); col_flag = snd (snd (snd e))
      in case sock_named principled_input (inputs (nodes g ! pn)) of
           None \<Rightarrow> None
         | Some i \<Rightarrow>
             (if is_linked g (InS pn i) then None
              else case default_value (inputs (nodes g ! pn) ! i) of
                     None \<Rightarrow> None
                   | Some (Vec xs) \<Rightarrow>
                       (if col_flag
                        then Some \<lparr>val = Vec (take 3 xs), is_color = True, invert = inv_flag\<rparr>
                        else None)
                   | Some (Scalar x) \<Rightarrow>
                       (if col_flag then None
                        else Some \<lparr>val = Scalar (if inv_flag then py_sub fm 1 x else x),
                                   is_color = False, invert = inv_flag\<rparr>)))"

text \<open>\<open>values[disney_input] = {...}\<close> for what the entry reads.\<close>

definition extract_step ::
    "float_model \<Rightarrow> node_tree \<Rightarrow> nat \<Rightarrow> (string \<times> value_info) list
      \<Rightarrow> string \<times> string \<times> bool \<times> bool \<Rightarrow> (string \<times> value_info) list" where
  "extract_step fm g pn values e =
     (case read_entry fm g pn e of
        None \<Rightarrow> values
      | Some info \<Rightarrow> dict_set (fst (snd e)) info values)"

text \<open>
  \<open>extract_principled_values\<close> (lines 177-254) on the node tree of a material that uses
  nodes. The messages it prints format floating-point numbers and are left out.
\<close>

definition extract_principled_values :: "float_model \<Rightarrow> node_tree \<Rightarrow> (string \<times> value_info) list" where
  "extract_principled_values fm g =
     (case find_idx (\<lambda>n. node_type n = ''BSDF_PRINCIPLED'') (nodes g) of
        None \<Rightarrow> []
      | Some pn \<Rightarrow> foldl (extract_step fm g pn) [] value_mapping)"

text \<open>\<open>get_alternative_socket_names\<close> (lines 388-401).\<close>

definition get_alternative_socket_names :: "string \<Rightarrow> string list" where
  "get_alternative_socket_names s =
     (case map_of
        [(''Base Color'', [''BaseColor'', ''Diffuse Color'', ''Color'', ''Diffuse'']),
         (''Metallic'', [''Metal'', ''Metallicness'']),
         (''Roughness'', [''Rough'', ''Glossiness'']),
         (''Specular'', [''Spec'', ''Specular Level'', ''Reflection'']),
         (''Sheen'', [''Sheen Weight'', ''SheenAmount'']),
         (''Sheen Tint'', [''SheenTint'', ''Sheen Color'']),
         (''Clearcoat'', [''Coat'', ''Clear Coat'', ''ClearCoat'', ''Coat Weight'']),
         (''Clearcoat Gloss'', [''Coat Gloss'', ''ClearCoatGloss'', ''Clearcoat Roughness'']),
         (''Opacity'', [''Alpha'', ''Transparency''])] s of
        Some alts \<Rightarrow> alts
      | None \<Rightarrow> [])"

text \<open>
  The target socket of a value (lines 317-348): the exact name, an alternative name, then
  the first input that equals the name without regard to case or contains, or is
  contained in, one of the names.
\<close>

definition resolve_target :: "node \<Rightarrow> string \<Rightarrow> nat option" where
  "resolve_target dn disney_input =
     (let alt_names = get_alternative_socket_names disney_input
      in case first_named (disney_input # alt_names) (inputs dn) of
           Some i \<Rightarrow> Some i
         | None \<Rightarrow>
             find_idx (\<lambda>k. lower (sock_name k) = lower disney_input \<or>
                           (\<exists>alt \<in> set (alt_names @ [disney_input]).
                               contains (lower alt) (lower (sock_name k)) \<or>
                               contains (lower (sock_name k)) (lower alt)))
               (inputs dn))"

text \<open>
  Writing the resting value of an input. The host takes a value only for a field that
  has one of the same shape (a number for a number, a vector for a vector of the same
  length) and raises otherwise; \<open>None\<close> stands for the exception. What the field then
  holds is the value as the host stores it.
\<close>

definition same_shape :: "sockval \<Rightarrow> sockval \<Rightarrow> bool" where
  "same_shape a b = (case (a, b) of
       (Scalar _, Scalar _) \<Rightarrow> True
     | (Vec xs, Vec ys) \<Rightarrow> length xs = length ys
     | _ \<Rightarrow> False)"

definition set_default ::
    "float_model \<Rightarrow> nat \<Rightarrow> nat \<Rightarrow> sockval \<Rightarrow> node_tree \<Rightarrow> node_tree option" where
  "set_default fm n i v g =
     (case default_value (inputs (nodes g ! n) ! i) of
        None \<Rightarrow> None
      | Some old \<Rightarrow>
          (if same_shape old v
           then Some (upd_node n (\<lambda>x. x\<lparr>inputs := (inputs x)[i := (inputs x ! i)
                                            \<lparr>default_value := Some (stored fm v)\<rparr>]\<rparr>) g)
           else None))"

text \<open>
  \<open>create_emission_from_values\<close> (lines 403-457): the emission node takes the colour
  as its \<open>Color\<close> value (as three components, else with a fourth component 1.0) and its
  first output is linked to the material's emission input.
\<close>

definition set_emission_color :: "float_model \<Rightarrow> nat \<Rightarrow> rat list \<Rightarrow> node_tree \<Rightarrow> node_tree" where
  "set_emission_color fm emission_node emission_color g =
     (case sock_named ''Color'' (inputs (nodes g ! emission_node)) of
        Some ci \<Rightarrow>
          (case set_default fm emission_node ci (Vec emission_color) g of
             Some g' \<Rightarrow> g'
           | None \<Rightarrow>
               (case set_default fm emission_node ci (Vec (emission_color @ [1])) g of
                  Some g' \<Rightarrow> g'
                | None \<Rightarrow> g))
      | None \<Rightarrow> g)"

definition create_emission_from_values ::
    "float_model \<Rightarrow> host \<Rightarrow> node_tree \<Rightarrow> nat \<Rightarrow> rat list \<Rightarrow> bool \<times> node_tree" where
  "create_emission_from_values fm h g disney emission_color =
     (case nodes_new h g ''LuxCoreNodeMatEmission'' of
        Inl e \<Rightarrow> (False, g)
      | Inr (emission_node, g1) \<Rightarrow>
          (let g2 = set_label emission_node ''Emission (from Principled)'' g1;
               g3 = set_emission_color fm emission_node emission_color g2
           in if outputs (nodes g3 ! emission_node) = [] then (False, g3)
              else case find_input ''Emission'' [''emission''] (nodes g3 ! disney) of
                     Some i \<Rightarrow> (True, links_new g3 (OutS emission_node 0) (InS disney i))
                   | None \<Rightarrow> (False, g3)))"

text \<open>
  Lines 286-302: emission is valid when some component of the emission colour exceeds
  0.001 and the emission strength, when it was extracted, is positive.
\<close>

definition has_valid_emission :: "(string \<times> value_info) list \<Rightarrow> bool" where
  "has_valid_emission values =
     (case map_of values ''Emission Color'' of
        None \<Rightarrow> False
      | Some emission_color \<Rightarrow>
          (case val emission_color of
             Vec color \<Rightarrow>
               (\<exists>c \<in> set color. c > 1 / 1000) \<and>
               (case map_of values ''Emission Strength'' of
                  None \<Rightarrow> True
                | Some emission_strength \<Rightarrow>
                    (case val emission_strength of Scalar x \<Rightarrow> x > 0 | Vec _ \<Rightarrow> False))
           | Scalar _ \<Rightarrow> False))"

definition emission_color_of :: "(string \<times> value_info) list \<Rightarrow> rat list" where
  "emission_color_of values =
     (case map_of values ''Emission Color'' of
        Some e \<Rightarrow> (case val e of Vec c \<Rightarrow> c | Scalar _ \<Rightarrow> [])
      | None \<Rightarrow> [])"

text \<open>
  One extracted value applied to the material (lines 312-384). A linked target is
  skipped. A colour goes to a four-component target as \<open>(r, g, b, 1.0)\<close>, to a
  three-component target as it is, and to any other target as its first component;
  \<open>None\<close> stands for the \<open>IndexError\<close> of a colour that is too short. When the
  assignment raises, the \<open>except\<close> branch leaves the target and the count alone.
\<close>

definition color_for_target :: "sockval \<Rightarrow> rat list \<Rightarrow> sockval option" where
  "color_for_target old color_val =
     (case old of
        Vec d \<Rightarrow>
          (if length d = 4 then
             (if length color_val \<ge> 3
              then Some (Vec [color_val ! 0, color_val ! 1, color_val ! 2, 1]) else None)
           else if length d = 3 then Some (Vec color_val)
           else if color_val \<noteq> [] then Some (Scalar (color_val ! 0)) else None)
      | Scalar _ \<Rightarrow> (if color_val \<noteq> [] then Some (Scalar (color_val ! 0)) else None))"

definition write_value ::
    "float_model \<Rightarrow> nat \<Rightarrow> nat \<Rightarrow> sockval \<Rightarrow> nat \<times> node_tree \<Rightarrow> nat \<times> node_tree" where
  "write_value fm disney t v st =
     (case set_default fm disney t v (snd st) of
        Some g' \<Rightarrow> (fst st + 1, g')
      | None \<Rightarrow> st)"

definition apply_value ::
    "float_model \<Rightarrow> nat \<Rightarrow> nat \<times> node_tree \<Rightarrow> string \<times> value_info \<Rightarrow> nat \<times> node_tree" where
  "apply_value fm disney st e =
     (let g = snd st; disney_input = fst e; info = snd e
      in if disney_input \<in> set [''Emission Color'', ''Emission Strength''] then st
         else
           (case resolve_target (nodes g ! disney) disney_input of
              None \<Rightarrow> st
            | Some t \<Rightarrow>
                (if is_linked g (InS disney t) then st
                 else if is_color info then
                   (case default_value (inputs (nodes g ! disney) ! t) of
                      None \<Rightarrow> (fst st + 1, g)
                    | Some old \<Rightarrow>
                        (case val info of
                           Vec color_val \<Rightarrow>
                             (case color_for_target old color_val of
                                Some v \<Rightarrow> write_value fm disney t v st
                              | None \<Rightarrow> st)
                         | Scalar _ \<Rightarrow> st))
                 else write_value fm disney t (val info) st)))"

text \<open>
  \<open>apply_principled_values_to_disney\<close> (lines 256-386) on the tree of the target
  material: the emission node first, then every other value.
\<close>

definition apply_principled_values_to_disney ::
    "float_model \<Rightarrow> host \<Rightarrow> node_tree \<Rightarrow> (string \<times> value_info) list \<Rightarrow> nat \<times> node_tree" where
  "apply_principled_values_to_disney fm h g principled_values =
     (case find_idx (\<lambda>n. bl_idname n \<in> set disney_node_types) (nodes g) of
        None \<Rightarrow> (0, g)
      | Some disney \<Rightarrow>
          (let st = (if has_valid_emission principled_values then
                       (case create_emission_from_values fm h g disney (emission_color_of principled_values) of
                          (True, g1) \<Rightarrow> (1, g1)
                        | (False, g1) \<Rightarrow> (0, g1))
                     else (0, g))
           in foldl (apply_value fm disney) st principled_values))"

text \<open>The keywords of one role in the table of \<open>luxcore_texture_connect.py\<close>.\<close>

definition keywords_connect :: "tex_type \<Rightarrow> string list" where
  "keywords_connect ty = (case map_of texture_mapping_connect ty of Some i \<Rightarrow> tex_keywords i | None \<Rightarrow> [])"



text \<open>The resting value of input \<open>t\<close> of node \<open>d\<close>.\<close>

definition resting :: "node_tree \<Rightarrow> nat \<Rightarrow> nat \<Rightarrow> sockval option" where
  "resting g d t = default_value (inputs (nodes g ! d) ! t)"

text \<open>The two values of the emission that are set aside for the emission node.\<close>

definition emission_names :: "string list" where
  "emission_names = [''Emission Color'', ''Emission Strength'']"

text \<open>
  Input \<open>t\<close> of node \<open>d\<close> either rests as in \<open>g0\<close>, or it is not linked and one of the
  values \<open>S\<close>, none of the emission, has it as its target.
\<close>

definition aimed_at :: "(string \<times> value_info) set \<Rightarrow> node_tree \<Rightarrow> node_tree \<Rightarrow> nat \<Rightarrow> nat \<Rightarrow> bool" where
  "aimed_at S g0 g d t =
     (resting g d t = resting g0 d t \<or>
      (\<not> is_linked g0 (InS d t) \<and>
       (\<exists>e \<in> S. fst e \<notin> set emission_names \<and> resolve_target (nodes g0 ! d) (fst e) = Some t)))"

text \<open>Every node and every image of the tree has a name of ASCII characters.\<close>

definition ascii_names :: "node_tree \<Rightarrow> bool" where
  "ascii_names g = (\<forall>n \<in> set (nodes g). is_ascii (name n) \<and>
                      (case image_name n of None \<Rightarrow> True | Some i \<Rightarrow> is_ascii i))"

section \<open>What a synthesis step leaves alone\<close>

text \<open>Every destination socket has at most one incoming link.\<close>

definition single_dest :: "node_tree \<Rightarrow> bool" where
  "single_dest g = distinct (map snd (links g))"

definition kinds :: "node_tree \<Rightarrow> string list" where
  "kinds g = map bl_idname (nodes g)"

definition input_names :: "node \<Rightarrow> string list" where
  "input_names n = map sock_name (inputs n)"

definition links_into :: "sock \<Rightarrow> node_tree \<Rightarrow> link list" where
  "links_into p g = filter (\<lambda>l. snd l = p) (links g)"

text \<open>A set \<open>P\<close> of sockets is guarded in \<open>g\<close> when each is an input named \<open>Base Color\<close>.\<close>

definition guarded :: "(sock \<Rightarrow> bool) \<Rightarrow> node_tree \<Rightarrow> bool" where
  "guarded P g =
     (\<forall>p. P p \<longrightarrow> (\<exists>n i. p = InS n i \<and> n < length (nodes g) \<and> i < length (inputs (nodes g ! n)) \<and>
                              sock_name (inputs (nodes g ! n) ! i) = ''Base Color''))"

text \<open>
  From \<open>g\<close> to \<open>x\<close>: nodes are only appended, of kinds in \<open>K\<close>; the nodes of \<open>g\<close> keep the
  names of their inputs; no destination gets a second incoming link; and the links into
  the guarded sockets \<open>P\<close> stay as they are.
\<close>

definition frame :: "string set \<Rightarrow> (sock \<Rightarrow> bool) \<Rightarrow> node_tree \<Rightarrow> node_tree \<Rightarrow> bool" where
  "frame K P g x =
     ((\<exists>ks. kinds x = kinds g @ ks \<and> set ks \<subseteq> K) \<and>
      (\<forall>n < length (nodes g). input_names (nodes x ! n) = input_names (nodes g ! n)) \<and>
      (single_dest g \<longrightarrow> single_dest x) \<and>
      (\<forall>p. P p \<longrightarrow> links_into p x = links_into p g) \<and>
      guarded P x)"

text \<open>\<open>y\<close> has the nodes of \<open>x\<close>, in kind and sockets.\<close>

definition same_sockets :: "node_tree \<Rightarrow> node_tree \<Rightarrow> bool" where
  "same_sockets x y = (kinds y = kinds x \<and> length (nodes y) = length (nodes x) \<and>
     (\<forall>n. inputs (nodes y ! n) = inputs (nodes x ! n) \<and> outputs (nodes y ! n) = outputs (nodes x ! n)))"

text \<open>The kinds of node that the second pass of \<open>luxcore_texture_connect.py\<close> asks the host for.\<close>

definition synthesis_kinds :: "string set" where
  "synthesis_kinds = {''LuxCoreNodeTexSplitFloat3'', ''LuxCoreNodeTexBump'', ''LuxCoreNodeMatEmission'',
     ''LuxCoreNodeShapeSubdiv''} \<union> set displacement_node_types"

section \<open>Example graphs\<close>

definition plain_socket :: "string \<Rightarrow> socket" where
  "plain_socket s = \<lparr>sock_name = s, default_value = None\<rparr>"

definition valued_socket :: "string \<Rightarrow> sockval \<Rightarrow> socket" where
  "valued_socket s v = \<lparr>sock_name = s, default_value = Some v\<rparr>"

definition plain_node :: "string \<Rightarrow> string \<Rightarrow> socket list \<Rightarrow> socket list \<Rightarrow> node" where
  "plain_node kind nm ins outs = \<lparr>bl_idname = kind, node_type = [], name = nm, label = [],
     image_name = None, inputs = ins, outputs = outs, attrs = []\<rparr>"

text \<open>
  A host that knows the LuxCore splitter, math, emission, constant, displacement and
  subdivision nodes, and has no material output node to give.
\<close>

definition small_host :: host where
  "small_host kind =
     (if kind = ''LuxCoreNodeTexSplitFloat3''
      then Inr (plain_node kind ''Split'' [plain_socket ''Value'']
                  [plain_socket ''R'', plain_socket ''G'', plain_socket ''B''])
      else if kind = ''LuxCoreNodeTexMath''
      then Inr ((plain_node kind ''Math'' [plain_socket ''Value 1'', plain_socket ''Value 2'']
                   [plain_socket ''Value''])\<lparr>attrs := [(''operation'', PStr ''ADD'')]\<rparr>)
      else if kind = ''LuxCoreNodeMatEmission''
      then Inr (plain_node kind ''Emission'' [valued_socket ''Color'' (Vec [0, 0, 0])]
                  [plain_socket ''Emission''])
      else if kind = ''LuxCoreNodeTexConstantFloat3''
      then Inr ((plain_node kind ''Constant'' [] [plain_socket ''Value''])
                  \<lparr>attrs := [(''value'', PVec [0, 0, 0])]\<rparr>)
      else if kind = ''LuxCoreNodeShapeHeightDisplacement''
      then Inr ((plain_node kind ''Height Displacement'' [plain_socket ''Shape'', plain_socket ''Height'']
                   [plain_socket ''Shape''])\<lparr>attrs := [(''scale'', PNum 1)]\<rparr>)
      else if kind = ''LuxCoreNodeShapeSubdiv''
      then Inr (plain_node kind ''Subdivision'' [plain_socket ''Shape''] [plain_socket ''Shape''])
      else Inl ''node type undefined'')"

text \<open>A float model that never rounds, and one that keeps eight binary places on the host.\<close>

definition exact_floats :: float_model where
  "exact_floats = \<lparr>py_sub = (\<lambda>a b. a - b), host_float = (\<lambda>v. v)\<rparr>"

definition coarse_floats :: float_model where
  "coarse_floats = \<lparr>py_sub = (\<lambda>a b. a - b), host_float = (\<lambda>v. of_int \<lfloor>v * 256\<rfloor> / 256)\<rparr>"

text \<open>A principled node with a red base colour, coat roughness 0.1 and white emission.\<close>

definition principled_tree :: node_tree where
  "principled_tree =
     \<lparr>nodes = [(plain_node ''ShaderNodeBsdfPrincipled'' ''Principled BSDF''
                  [valued_socket ''Base Color'' (Vec [4 / 5, 1 / 5, 1 / 10, 1 / 2]),
                   valued_socket ''Coat Roughness'' (Scalar (1 / 10)),
                   valued_socket ''Emission Color'' (Vec [1, 1, 1, 1]),
                   valued_socket ''Emission Strength'' (Scalar 2)]
                  [plain_socket ''BSDF''])\<lparr>node_type := ''BSDF_PRINCIPLED''\<rparr>],
      links = [], diags = []\<rparr>"

text \<open>A Disney node whose inputs all rest at their defaults.\<close>

definition disney_tree :: node_tree where
  "disney_tree =
     \<lparr>nodes = [plain_node ''LuxCoreNodeMatDisney'' ''Disney''
                  [valued_socket ''Base Color'' (Vec [1, 1, 1, 1]),
                   valued_socket ''Clearcoat Gloss'' (Scalar 1),
                   plain_socket ''Emission'']
                  [plain_socket ''Material'']],
      links = [], diags = []\<rparr>"

text \<open>A Disney material node and image textures named after their files.\<close>

definition disney_material :: node where
  "disney_material = plain_node ''LuxCoreNodeMatDisney'' ''Disney''
     [plain_socket ''Base Color'', plain_socket ''Metallic'', plain_socket ''Roughness'',
      plain_socket ''Specular'', plain_socket ''Bump'', plain_socket ''Emission'']
     [plain_socket ''Material'']"

definition image_texture :: "string \<Rightarrow> node" where
  "image_texture nm = plain_node ''LuxCoreNodeTexImagemap'' nm
     [plain_socket ''2D Mapping''] [plain_socket ''Color'']"

definition material_with :: "string list \<Rightarrow> node_tree" where
  "material_with names = \<lparr>nodes = disney_material # map image_texture names, links = [], diags = []\<rparr>"

text \<open>The arguments of a run on the material at index 0, without a shared mapping node.\<close>

definition plain_args :: "nat option \<Rightarrow> run_args" where
  "plain_args mo = \<lparr>material_node = 0, mapping_node = None, create_uv_node = False,
     material_output = mo, displacement_height = 1 / 100\<rparr>"



section \<open>The boundary pattern\<close>

lemma length_lower [simp]: "length (lower s) = length s"
  by (simp add: lower_def)

lemma kw_here_iff:
  "kw_here kw s \<longleftrightarrow>
     (\<exists>mid post. s = mid @ post \<and> lower mid = lower kw \<and> (post = [] \<or> \<not> is_alnum (hd post)))"
proof
  assume h: "kw_here kw s"
  have "s = take (length kw) s @ drop (length kw) s" by simp
  moreover have "lower (take (length kw) s) = lower kw" using h by (simp add: kw_here_def)
  moreover have "drop (length kw) s = [] \<or> \<not> is_alnum (hd (drop (length kw) s))"
    using h by (auto simp: kw_here_def split: list.splits)
  ultimately show "\<exists>mid post. s = mid @ post \<and> lower mid = lower kw \<and> (post = [] \<or> \<not> is_alnum (hd post))"
    by blast
next
  assume "\<exists>mid post. s = mid @ post \<and> lower mid = lower kw \<and> (post = [] \<or> \<not> is_alnum (hd post))"
  then obtain mid post where s: "s = mid @ post" and l: "lower mid = lower kw"
    and p: "post = [] \<or> \<not> is_alnum (hd post)" by blast
  from l have len: "length mid = length kw" by (metis length_lower)
  show "kw_here kw s" using s l p len by (auto simp: kw_here_def split: list.splits)
qed

lemma scan_iff:
  "scan kw ok s \<longleftrightarrow>
     (ok \<and> kw_here kw s) \<or> (\<exists>pre c post. s = pre @ c # post \<and> \<not> is_alnum c \<and> kw_here kw post)"
proof (induction s arbitrary: ok)
  case Nil
  then show ?case by simp
next
  case (Cons a s)
  have "(\<exists>pre c post. a # s = pre @ c # post \<and> \<not> is_alnum c \<and> kw_here kw post) \<longleftrightarrow>
        (\<not> is_alnum a \<and> kw_here kw s) \<or> (\<exists>pre c post. s = pre @ c # post \<and> \<not> is_alnum c \<and> kw_here kw post)"
    (is "?L \<longleftrightarrow> ?R")
  proof
    assume ?L
    then obtain pre c post where e: "a # s = pre @ c # post" and c: "\<not> is_alnum c" and k: "kw_here kw post"
      by blast
    show ?R
    proof (cases pre)
      case Nil
      then show ?thesis using e c k by simp
    next
      case (Cons b pre')
      then have "s = pre' @ c # post" using e by simp
      then show ?thesis using c k by blast
    qed
  next
    assume ?R
    then show ?L
    proof
      assume "\<not> is_alnum a \<and> kw_here kw s"
      then have "a # s = [] @ a # s \<and> \<not> is_alnum a \<and> kw_here kw s" by simp
      then show ?L by blast
    next
      assume "\<exists>pre c post. s = pre @ c # post \<and> \<not> is_alnum c \<and> kw_here kw post"
      then obtain pre c post where "s = pre @ c # post" "\<not> is_alnum c" "kw_here kw post" by blast
      then have "a # s = (a # pre) @ c # post \<and> \<not> is_alnum c \<and> kw_here kw post" by simp
      then show ?L by blast
    qed
  qed
  then show ?case using Cons.IH [of "\<not> is_alnum a"] by auto
qed

lemma re_search_boundary_iff:
  "re_search_boundary kw s \<longleftrightarrow>
     (\<exists>pre mid post. s = pre @ mid @ post \<and> lower mid = lower kw \<and>
        (pre = [] \<or> \<not> is_alnum (last pre)) \<and> (post = [] \<or> \<not> is_alnum (hd post)))"
  (is "?L \<longleftrightarrow> ?R")
proof
  assume ?L
  then have "kw_here kw s \<or> (\<exists>pre c post. s = pre @ c # post \<and> \<not> is_alnum c \<and> kw_here kw post)"
    by (simp add: re_search_boundary_def scan_iff)
  then show ?R
  proof
    assume "kw_here kw s"
    then obtain mid post where "s = [] @ mid @ post" "lower mid = lower kw" "post = [] \<or> \<not> is_alnum (hd post)"
      by (auto simp: kw_here_iff)
    then show ?R by blast
  next
    assume "\<exists>pre c post. s = pre @ c # post \<and> \<not> is_alnum c \<and> kw_here kw post"
    then obtain pre c rest where s: "s = pre @ c # rest" and c: "\<not> is_alnum c" and k: "kw_here kw rest"
      by blast
    from k obtain mid post where r: "rest = mid @ post" and l: "lower mid = lower kw"
      and p: "post = [] \<or> \<not> is_alnum (hd post)" by (auto simp: kw_here_iff)
    have "s = (pre @ [c]) @ mid @ post" using s r by simp
    moreover have "\<not> is_alnum (last (pre @ [c]))" using c by simp
    ultimately show ?R using l p by blast
  qed
next
  assume ?R
  then obtain pre mid post where s: "s = pre @ mid @ post" and l: "lower mid = lower kw"
    and a: "pre = [] \<or> \<not> is_alnum (last pre)" and p: "post = [] \<or> \<not> is_alnum (hd post)" by blast
  have k: "kw_here kw (mid @ post)" using l p by (auto simp: kw_here_iff)
  show ?L
  proof (cases "pre = []")
    case True
    then show ?thesis using k s by (simp add: re_search_boundary_def scan_iff)
  next
    case False
    then have "pre = butlast pre @ [last pre]" by simp
    then have "s = butlast pre @ last pre # (mid @ post)" using s by (metis append.assoc append_Cons append_Nil)
    moreover have "\<not> is_alnum (last pre)" using a False by simp
    ultimately show ?thesis using k unfolding re_search_boundary_def scan_iff by blast
  qed
qed

text \<open>
  C5, as stated, fails: the bare name \<open>col\<close> does match the colour keyword group of
  \<open>luxcore_texture_connect.py\<close>, through the group's own keyword \<open>col\<close>, and the
  texture is identified as a colour texture.
\<close>

theorem col_matches_color_group:
  "first_keyword (keywords_connect Color) (search_text ''col'' None) = Some ''col''
   \<and> map_option fst (identify_connect ''col'' None) = Some Color"
  by code_simp

text \<open>
  C5, amended: for a name and a keyword of ASCII characters, the keyword is found in the
  name exactly when some occurrence of it (without regard to case) starts at the start
  of the name or after a character outside \<open>[a-zA-Z0-9]\<close> and ends at the end of the
  name or before such a character. The keyword \<open>color\<close> is not found in the bare name
  \<open>col\<close>, and it is found in \<open>base_color\<close>, which is identified as a colour texture.
\<close>

theorem keyword_needs_boundaries:
  assumes "is_ascii s" and "is_ascii kw"
  shows "(re_search_boundary kw s \<longleftrightarrow>
      (\<exists>pre mid post. s = pre @ mid @ post \<and> lower mid = lower kw \<and>
         (pre = [] \<or> \<not> is_alnum (last pre)) \<and> (post = [] \<or> \<not> is_alnum (hd post))))
   \<and> (\<forall>c. is_alnum c \<longleftrightarrow>
          c \<in> set ''abcdefghijklmnopqrstuvwxyzABCDEFGHIJKLMNOPQRSTUVWXYZ0123456789'')
   \<and> \<not> re_search_boundary ''color'' (search_text ''col'' None)
   \<and> first_keyword (keywords_connect Color) (search_text ''base_color'' None) = Some ''color''
   \<and> map_option fst (identify_connect ''base_color'' None) = Some Color"
proof -
  have al: "\<forall>c. is_alnum c \<longleftrightarrow>
          c \<in> set ''abcdefghijklmnopqrstuvwxyzABCDEFGHIJKLMNOPQRSTUVWXYZ0123456789''"
    by (simp add: is_alnum_def lower_letters_def upper_letters_def digits_def)
  have a: "\<not> re_search_boundary ''color'' (search_text ''col'' None)" by code_simp
  have b: "first_keyword (keywords_connect Color) (search_text ''base_color'' None) = Some ''color''"
    by code_simp
  have c: "map_option fst (identify_connect ''base_color'' None) = Some Color" by code_simp
  show ?thesis using re_search_boundary_iff al a b c by blast
qed

theorem keyword_needs_boundaries_witness:
  "is_ascii ''base_color '' \<and> is_ascii ''color'' \<and> re_search_boundary ''color'' ''base_color '' \<and>
   (\<exists>pre mid post. ''base_color '' = pre @ mid @ post \<and> lower mid = lower ''color'' \<and>
      (pre = [] \<or> \<not> is_alnum (last pre)) \<and> (post = [] \<or> \<not> is_alnum (hd post)))"
proof -
  have a: "is_ascii ''base_color ''" "is_ascii ''color''" by code_simp+
  have e: "re_search_boundary ''color'' ''base_color ''" by code_simp
  from keyword_needs_boundaries [OF a] a e show ?thesis by blast
qed


section \<open>Suffix precedence\<close>

subsection \<open>The suffix is a bounded piece of the search text\<close>



lemma re_split_seps_nonempty [simp]: "re_split_seps s \<noteq> []"
  by (induction s) (auto split: list.splits)









subsection \<open>The loop of the extractor's classifier\<close>









subsection \<open>The extractor's table\<close>







subsection \<open>The loop of the classifier of \<open>luxcore_texture_connect.py\<close>\<close>









section \<open>The elementary operations on the graph\<close>

lemma map_update_same: "f y = f (xs ! i) \<Longrightarrow> map f (xs[i := y]) = map f xs"
  by (cases "i < length xs") (simp_all add: map_update list_update_same_conv list_update_beyond)

lemma find_idx_Some: "find_idx P xs = Some i \<Longrightarrow> i < length xs \<and> P (xs ! i)"
  by (induction xs arbitrary: i) (auto split: if_splits)

lemma links_upd_node [simp]: "links (upd_node i f g) = links g"
  by (simp add: upd_node_def)

lemma kinds_upd_node:
  "(\<And>n. bl_idname (f n) = bl_idname n) \<Longrightarrow> map bl_idname (nodes (upd_node i f g)) = map bl_idname (nodes g)"
  by (simp add: upd_node_def map_update_same)

lemma nodes_new_Inr:
  "h kind = Inr tmpl \<Longrightarrow>
     nodes_new h g kind = Inr (length (nodes g), g\<lparr>nodes := nodes g @ [tmpl\<lparr>bl_idname := kind\<rparr>]\<rparr>)"
  by (simp add: nodes_new_def)

lemma nodes_upd_node_other: "d \<noteq> i \<Longrightarrow> nodes (upd_node i f g) ! d = nodes g ! d"
  by (simp add: upd_node_def)

lemma links_links_new: "links (links_new g a b) = filter (\<lambda>l. snd l \<noteq> b) (links g) @ [(a, b)]"
  by (simp add: links_new_def)

lemma nodes_links_new [simp]: "nodes (links_new g a b) = nodes g"
  by (simp add: links_new_def)

lemma nodes_upd_node_nth:
  "nodes (upd_node i f g) ! j = (if j = i \<and> i < length (nodes g) then f (nodes g ! i) else nodes g ! j)"
  by (cases "i < length (nodes g)") (auto simp: upd_node_def list_update_beyond)

lemma sock_named_Some: "sock_named s xs = Some i \<Longrightarrow> i < length xs \<and> sock_name (xs ! i) = s"
  unfolding sock_named_def by (drule find_idx_Some) simp

lemma first_named_Some: "first_named ss xs = Some i \<Longrightarrow> i < length xs \<and> sock_name (xs ! i) \<in> set ss"
  by (induction ss) (auto split: option.splits dest: sock_named_Some)


section \<open>Value transfer\<close>

subsection \<open>What value transfer leaves alone\<close>

lemma set_default_frame:
  "set_default fm n i v g = Some g' \<Longrightarrow>
     links g' = links g \<and> map bl_idname (nodes g') = map bl_idname (nodes g)"
  by (auto simp: set_default_def kinds_upd_node split: option.splits if_splits)

lemma write_value_frame:
  "links (snd (write_value fm d t v st)) = links (snd st) \<and>
   map bl_idname (nodes (snd (write_value fm d t v st))) = map bl_idname (nodes (snd st))"
  by (auto simp: write_value_def dest: set_default_frame split: option.splits)

lemma apply_value_frame:
  "links (snd (apply_value fm d st e)) = links (snd st) \<and>
   map bl_idname (nodes (snd (apply_value fm d st e))) = map bl_idname (nodes (snd st))"
  by (simp add: apply_value_def Let_def write_value_frame split: option.split sockval.split)

lemma fold_apply_value_frame:
  "links (snd (foldl (apply_value fm d) st vs)) = links (snd st) \<and>
   map bl_idname (nodes (snd (foldl (apply_value fm d) st vs))) = map bl_idname (nodes (snd st))"
  by (induction vs arbitrary: st) (simp_all add: apply_value_frame)

lemma set_default_other:
  "set_default fm n i v g = Some g' \<Longrightarrow> d \<noteq> n \<Longrightarrow> nodes g' ! d = nodes g ! d"
  by (auto simp: set_default_def nodes_upd_node_other split: option.splits if_splits)

lemma set_default_same_outputs:
  "set_default fm n i v g = Some g' \<Longrightarrow> outputs (nodes g' ! j) = outputs (nodes g ! j)"
  by (auto simp: set_default_def nodes_upd_node_nth split: option.splits if_splits)

lemma set_emission_color_frame:
  "links (set_emission_color fm n c g) = links g \<and>
   map bl_idname (nodes (set_emission_color fm n c g)) = map bl_idname (nodes g) \<and>
   (d \<noteq> n \<longrightarrow> nodes (set_emission_color fm n c g) ! d = nodes g ! d) \<and>
   outputs (nodes (set_emission_color fm n c g) ! j) = outputs (nodes g ! j)"
  by (auto simp: set_emission_color_def
           dest: set_default_frame set_default_other set_default_same_outputs split: option.splits)


subsection \<open>What is extracted for a target name\<close>

lemma map_of_dict_set: "map_of (dict_set k v d) k' = (if k' = k then Some v else map_of d k')"
  by (induction d) auto

lemma map_of_extract_step:
  "map_of (extract_step fm g pn vals e) k =
     (if fst (snd e) = k
      then (case read_entry fm g pn e of None \<Rightarrow> map_of vals k | Some info \<Rightarrow> Some info)
      else map_of vals k)"
  by (simp add: extract_step_def map_of_dict_set split: option.splits)

text \<open>
  When every other entry with the target name \<open>k\<close> reads nothing, the dictionary holds
  for \<open>k\<close> what the entry \<open>e\<close> reads.
\<close>

lemma extract_fold_at:
  assumes "fst (snd e) = k"
    and "\<forall>e' \<in> set es. fst (snd e') = k \<longrightarrow> e' = e \<or> read_entry fm g pn e' = None"
  shows "map_of (foldl (extract_step fm g pn) vals es) k =
           (if e \<in> set es
            then (case read_entry fm g pn e of None \<Rightarrow> map_of vals k | Some info \<Rightarrow> Some info)
            else map_of vals k)"
  using assms(2)
proof (induction es arbitrary: vals)
  case Nil
  then show ?case by simp
next
  case (Cons x xs)
  have ih: "map_of (foldl (extract_step fm g pn) (extract_step fm g pn vals x) xs) k =
           (if e \<in> set xs
            then (case read_entry fm g pn e of None \<Rightarrow> map_of (extract_step fm g pn vals x) k
                  | Some info \<Rightarrow> Some info)
            else map_of (extract_step fm g pn vals x) k)"
    by (rule Cons.IH) (use Cons.prems in simp)
  have x: "fst (snd x) = k \<longrightarrow> x = e \<or> read_entry fm g pn x = None" using Cons.prems by simp
  show ?case
    unfolding foldl_Cons ih map_of_extract_step
    using x assms(1) by (auto split: option.splits)
qed




lemma read_entry_color:
  "read_entry fm g pn (src, dname, iv, True) = Some info \<longleftrightarrow>
     (\<exists>i xs. sock_named src (inputs (nodes g ! pn)) = Some i \<and> \<not> is_linked g (InS pn i) \<and>
        resting g pn i = Some (Vec xs) \<and> info = \<lparr>val = Vec (take 3 xs), is_color = True, invert = iv\<rparr>)"
  by (auto simp: read_entry_def resting_def Let_def split: option.splits sockval.splits)

lemma read_entry_scalar:
  "read_entry fm g pn (src, dname, iv, False) = Some info \<longleftrightarrow>
     (\<exists>i x. sock_named src (inputs (nodes g ! pn)) = Some i \<and> \<not> is_linked g (InS pn i) \<and>
        resting g pn i = Some (Scalar x) \<and>
        info = \<lparr>val = Scalar (if iv then py_sub fm 1 x else x), is_color = False, invert = iv\<rparr>)"
  by (auto simp: read_entry_def resting_def Let_def split: option.splits sockval.splits)





subsection \<open>The target of a value\<close>

lemma find_idx_map: "find_idx (\<lambda>x. P (f x)) xs = find_idx P (map f xs)"
  by (induction xs) simp_all

lemma sock_named_names: "sock_named s xs = find_idx (\<lambda>n. n = s) (map sock_name xs)"
  unfolding sock_named_def by (rule find_idx_map)

lemma first_named_names:
  "map sock_name xs = map sock_name ys \<Longrightarrow> first_named ss xs = first_named ss ys"
  by (induction ss) (auto simp: sock_named_names split: option.splits)

lemma resolve_target_names:
  assumes "input_names a = input_names b"
  shows "resolve_target a k = resolve_target b k"
proof -
  have m: "map sock_name (inputs a) = map sock_name (inputs b)" using assms by (simp add: input_names_def)
  have "find_idx (\<lambda>x. P (sock_name x)) (inputs a) = find_idx (\<lambda>x. P (sock_name x)) (inputs b)" for P
    unfolding find_idx_map [of P sock_name] m ..
  note f = this
  show ?thesis
    unfolding resolve_target_def Let_def first_named_names [OF m]
       f [of "\<lambda>n. lower n = lower k \<or>
                           (\<exists>alt \<in> set (get_alternative_socket_names k @ [k]).
                               contains (lower alt) (lower n) \<or> contains (lower n) (lower alt))"] ..
qed

lemma resolve_target_exact:
  "sock_named k (inputs dn) = Some t \<Longrightarrow> resolve_target dn k = Some t"
  by (simp add: resolve_target_def Let_def)

subsection \<open>One value applied\<close>

lemma set_default_effect:
  assumes "set_default fm n i v g = Some g'"
  shows "\<exists>old. resting g n i = Some old \<and> same_shape old v"
    and "t \<noteq> i \<Longrightarrow> resting g' n t = resting g n t"
    and "i < length (inputs (nodes g ! n)) \<Longrightarrow> n < length (nodes g) \<Longrightarrow> resting g' n i = Some (stored fm v)"
    and "input_names (nodes g' ! m) = input_names (nodes g ! m)"
    and "links g' = links g"
proof -
  from assms obtain old where o: "resting g n i = Some old" "same_shape old v"
    and g': "g' = upd_node n (\<lambda>x. x\<lparr>inputs := (inputs x)[i := (inputs x ! i)\<lparr>default_value := Some (stored fm v)\<rparr>]\<rparr>) g"
    by (auto simp: set_default_def resting_def split: option.splits if_splits)
  show "\<exists>old. resting g n i = Some old \<and> same_shape old v" using o by blast
  show "t \<noteq> i \<Longrightarrow> resting g' n t = resting g n t"
    unfolding g' resting_def nodes_upd_node_nth by simp
  show "i < length (inputs (nodes g ! n)) \<Longrightarrow> n < length (nodes g) \<Longrightarrow> resting g' n i = Some (stored fm v)"
    unfolding g' resting_def nodes_upd_node_nth by simp
  show "input_names (nodes g' ! m) = input_names (nodes g ! m)"
    unfolding g' input_names_def nodes_upd_node_nth by (simp add: map_update_same)
  show "links g' = links g" unfolding g' by simp
qed

lemma write_value_keeps:
  "input_names (nodes (snd (write_value fm d t0 v st)) ! m) = input_names (nodes (snd st) ! m)"
  "links (snd (write_value fm d t0 v st)) = links (snd st)"
  "t \<noteq> t0 \<Longrightarrow> resting (snd (write_value fm d t0 v st)) d t = resting (snd st) d t"
  by (auto simp: write_value_def split: option.splits dest: set_default_effect(2,4,5))

text \<open>
  A value either leaves the tree as it is, or it is none of the emission's, its target is
  not linked, and it is written to its target.
\<close>

lemma apply_value_cases:
  "snd (apply_value fm d st e) = snd st \<or>
   (fst e \<notin> set emission_names \<and>
    (\<exists>t0 v. resolve_target (nodes (snd st) ! d) (fst e) = Some t0 \<and> \<not> is_linked (snd st) (InS d t0) \<and>
        apply_value fm d st e = write_value fm d t0 v st))"
  unfolding apply_value_def Let_def emission_names_def
  by (simp split: option.split sockval.split) blast

lemma apply_value_keeps:
  "input_names (nodes (snd (apply_value fm d st e)) ! m) = input_names (nodes (snd st) ! m)"
  "links (snd (apply_value fm d st e)) = links (snd st)"
  using apply_value_cases [of fm d st e] by (auto simp: write_value_keeps)

lemma apply_value_elsewhere:
  assumes "fst e \<in> set emission_names \<or> resolve_target (nodes (snd st) ! d) (fst e) \<noteq> Some t"
  shows "resting (snd (apply_value fm d st e)) d t = resting (snd st) d t"
  using apply_value_cases [of fm d st e] assms by (auto simp: write_value_keeps)

lemma fold_apply_value_keeps:
  "input_names (nodes (snd (foldl (apply_value fm d) st es)) ! m) = input_names (nodes (snd st) ! m)"
  by (induction es arbitrary: st) (simp_all add: apply_value_keeps)

lemma fold_apply_value_elsewhere:
  assumes "input_names (nodes (snd st) ! d) = input_names dn"
    and "\<forall>e \<in> set es. fst e \<in> set emission_names \<or> resolve_target dn (fst e) \<noteq> Some t"
  shows "resting (snd (foldl (apply_value fm d) st es)) d t = resting (snd st) d t"
  using assms
proof (induction es arbitrary: st)
  case Nil
  then show ?case by simp
next
  case (Cons e es)
  have r: "resolve_target (nodes (snd st) ! d) (fst e) = resolve_target dn (fst e)"
    by (rule resolve_target_names [OF Cons.prems(1)])
  have a: "resting (snd (apply_value fm d st e)) d t = resting (snd st) d t"
    by (rule apply_value_elsewhere) (use Cons.prems(2) r in auto)
  have n: "input_names (nodes (snd (apply_value fm d st e)) ! d) = input_names dn"
    using Cons.prems(1) by (simp add: apply_value_keeps)
  have "resting (snd (foldl (apply_value fm d) (apply_value fm d st e) es)) d t
          = resting (snd (apply_value fm d st e)) d t"
    by (rule Cons.IH [OF n]) (use Cons.prems(2) in auto)
  then show ?case using a by simp
qed


subsection \<open>Only unlinked targets of extracted values change\<close>

lemma is_linked_cong: "links g = links g' \<Longrightarrow> is_linked g s = is_linked g' s"
  by (simp add: is_linked_def)

lemma aimed_at_step:
  assumes "e \<in> S" and "links (snd st) = links g0"
    and "input_names (nodes (snd st) ! d) = input_names (nodes g0 ! d)"
    and "aimed_at S g0 (snd st) d t"
  shows "aimed_at S g0 (snd (apply_value fm d st e)) d t"
proof -
  from apply_value_cases [of fm d st e] show ?thesis
  proof
    assume "snd (apply_value fm d st e) = snd st"
    then show ?thesis using assms(4) by simp
  next
    assume "fst e \<notin> set emission_names \<and>
      (\<exists>t0 v. resolve_target (nodes (snd st) ! d) (fst e) = Some t0 \<and> \<not> is_linked (snd st) (InS d t0) \<and>
        apply_value fm d st e = write_value fm d t0 v st)"
    then obtain t0 v where ne: "fst e \<notin> set emission_names"
      and r: "resolve_target (nodes (snd st) ! d) (fst e) = Some t0"
      and nl: "\<not> is_linked (snd st) (InS d t0)"
      and ap: "apply_value fm d st e = write_value fm d t0 v st" by blast
    show ?thesis
    proof (cases "t = t0")
      case False
      then have "resting (snd (apply_value fm d st e)) d t = resting (snd st) d t"
        by (simp add: ap write_value_keeps)
      then show ?thesis using assms(4) by (simp add: aimed_at_def)
    next
      case True
      have "resolve_target (nodes g0 ! d) (fst e) = Some t"
        using r True resolve_target_names [OF assms(3)] by simp
      moreover have "\<not> is_linked g0 (InS d t)" using nl True is_linked_cong [OF assms(2)] by simp
      ultimately show ?thesis using ne assms(1) unfolding aimed_at_def by blast
    qed
  qed
qed

lemma aimed_at_fold:
  assumes "set es \<subseteq> S" and "links (snd st) = links g0"
    and "input_names (nodes (snd st) ! d) = input_names (nodes g0 ! d)"
    and "aimed_at S g0 (snd st) d t"
  shows "aimed_at S g0 (snd (foldl (apply_value fm d) st es)) d t"
  using assms
proof (induction es arbitrary: st)
  case Nil
  then show ?case by simp
next
  case (Cons e es)
  have "aimed_at S g0 (snd (apply_value fm d st e)) d t"
    by (rule aimed_at_step) (use Cons.prems in simp_all)
  then have "aimed_at S g0 (snd (foldl (apply_value fm d) (apply_value fm d st e) es)) d t"
    by (rule Cons.IH [rotated 3]) (use Cons.prems in \<open>simp_all add: apply_value_keeps\<close>)
  then show ?case by simp
qed

text \<open>Creating the emission node leaves the Disney node as it is.\<close>

lemma create_emission_keeps:
  assumes "d < length (nodes g)"
  shows "nodes (snd (create_emission_from_values fm h g d c)) ! d = nodes g ! d"
    and "d < length (nodes (snd (create_emission_from_values fm h g d c)))"
proof -
  have "nodes (snd (create_emission_from_values fm h g d c)) ! d = nodes g ! d \<and>
        d < length (nodes (snd (create_emission_from_values fm h g d c)))"
  proof (cases "h ''LuxCoreNodeMatEmission''")
    case (Inl e)
    then show ?thesis using assms by (simp add: create_emission_from_values_def nodes_new_def)
  next
    case (Inr tmpl)
    have dn: "d \<noteq> length (nodes g)" using assms by simp
    have len: "length (nodes (set_emission_color fm n c x)) = length (nodes x)" for n x
      using set_emission_color_frame [of fm n c x] by (metis length_map)
    show ?thesis
      unfolding create_emission_from_values_def
        nodes_new_Inr [of h "''LuxCoreNodeMatEmission''" tmpl g, OF Inr]
      using assms dn
      by (simp add: Let_def set_emission_color_frame set_label_def nodes_upd_node_nth nth_append len
                    upd_node_def split: option.split)
  qed
  then show "nodes (snd (create_emission_from_values fm h g d c)) ! d = nodes g ! d"
    and "d < length (nodes (snd (create_emission_from_values fm h g d c)))" by simp_all
qed

text \<open>The tree in which the values are applied: the target tree, with the emission node if one is made.\<close>

lemma apply_start:
  assumes "find_idx (\<lambda>n. bl_idname n \<in> set disney_node_types) (nodes g) = Some d"
  obtains st where "apply_principled_values_to_disney fm h g vals = foldl (apply_value fm d) st vals"
    and "nodes (snd st) ! d = nodes g ! d" and "d < length (nodes (snd st))"
proof -
  define st where "st = (if has_valid_emission vals then
                       (case create_emission_from_values fm h g d (emission_color_of vals) of
                          (True, g1) \<Rightarrow> (1::nat, g1)
                        | (False, g1) \<Rightarrow> (0, g1))
                     else (0, g))"
  have dl: "d < length (nodes g)" using find_idx_Some [OF assms] by simp
  have a: "apply_principled_values_to_disney fm h g vals = foldl (apply_value fm d) st vals"
    using assms by (simp add: apply_principled_values_to_disney_def st_def)
  have "snd st = g \<or> snd st = snd (create_emission_from_values fm h g d (emission_color_of vals))"
    by (auto simp: st_def split: prod.splits bool.splits)
  then have "nodes (snd st) ! d = nodes g ! d \<and> d < length (nodes (snd st))"
    using create_emission_keeps [OF dl] dl by auto
  then show ?thesis using a that by blast
qed

lemma changed_is_aimed_at:
  assumes "find_idx (\<lambda>n. bl_idname n \<in> set disney_node_types) (nodes g) = Some d"
    and "g' = snd (apply_principled_values_to_disney fm h g vals)"
    and "resting g' d t \<noteq> resting g d t"
  shows "\<not> is_linked g' (InS d t) \<and>
     (\<exists>e \<in> set vals. fst e \<notin> set emission_names \<and> resolve_target (nodes g ! d) (fst e) = Some t)"
proof -
  obtain st where st: "apply_principled_values_to_disney fm h g vals = foldl (apply_value fm d) st vals"
    "nodes (snd st) ! d = nodes g ! d" by (rule apply_start [OF assms(1)])
  have g': "g' = snd (foldl (apply_value fm d) st vals)" using assms(2) st(1) by simp
  have "aimed_at (set vals) (snd st) (snd st) d t" by (simp add: aimed_at_def)
  then have "aimed_at (set vals) (snd st) g' d t"
    unfolding g' by (rule aimed_at_fold [rotated 3]) simp_all
  moreover have "resting (snd st) d t = resting g d t" using st(2) by (simp add: resting_def)
  moreover have "links g' = links (snd st)" unfolding g' by (simp add: fold_apply_value_frame)
  ultimately show ?thesis
    using assms(3) st(2) is_linked_cong [of g' "snd st"] unfolding aimed_at_def by auto
qed

subsection \<open>Where an extracted value comes from\<close>

lemma set_dict_set: "set (dict_set k v d) \<subseteq> insert (k, v) (set d)"
  by (induction d) (auto split: if_splits)

lemma extract_fold_from_table:
  assumes "\<forall>x \<in> set vals. \<exists>e \<in> set T. fst (snd e) = fst x \<and> read_entry fm g pn e = Some (snd x)"
    and "set es \<subseteq> set T"
  shows "\<forall>x \<in> set (foldl (extract_step fm g pn) vals es).
           \<exists>e \<in> set T. fst (snd e) = fst x \<and> read_entry fm g pn e = Some (snd x)"
  using assms
proof (induction es arbitrary: vals)
  case Nil
  then show ?case by simp
next
  case (Cons e es)
  have "\<forall>x \<in> set (extract_step fm g pn vals e).
           \<exists>e \<in> set T. fst (snd e) = fst x \<and> read_entry fm g pn e = Some (snd x)"
  proof (cases "read_entry fm g pn e")
    case None
    then show ?thesis using Cons.prems(1) by (simp add: extract_step_def)
  next
    case (Some info)
    have "e \<in> set T" using Cons.prems(2) by simp
    then show ?thesis
      using Cons.prems(1) Some set_dict_set [of "fst (snd e)" info vals]
      by (fastforce simp: extract_step_def)
  qed
  then show ?case using Cons.IH [of "extract_step fm g pn vals e"] Cons.prems(2) by simp
qed

lemma read_entry_Some:
  assumes "read_entry fm g pn e = Some info"
  shows "\<exists>i. sock_named (fst e) (inputs (nodes g ! pn)) = Some i \<and> \<not> is_linked g (InS pn i)"
  using assms by (auto simp: read_entry_def Let_def split: option.splits if_splits)

lemma extracted_from_table:
  assumes "find_idx (\<lambda>n. node_type n = ''BSDF_PRINCIPLED'') (nodes gs) = Some pn"
    and "x \<in> set (extract_principled_values fm gs)"
  shows "\<exists>e \<in> set value_mapping. fst (snd e) = fst x \<and>
           (\<exists>i. sock_named (fst e) (inputs (nodes gs ! pn)) = Some i \<and> \<not> is_linked gs (InS pn i))"
proof -
  have "\<forall>x \<in> set (foldl (extract_step fm gs pn) [] value_mapping).
           \<exists>e \<in> set value_mapping. fst (snd e) = fst x \<and> read_entry fm gs pn e = Some (snd x)"
    by (rule extract_fold_from_table) simp_all
  then obtain e where "e \<in> set value_mapping" "fst (snd e) = fst x" "read_entry fm gs pn e = Some (snd x)"
    using assms by (auto simp: extract_principled_values_def)
  then show ?thesis using read_entry_Some by blast
qed


subsection \<open>An extracted value reaches its target\<close>

lemma keys_dict_set: "map fst (dict_set k v d) = (if k \<in> fst ` set d then map fst d else map fst d @ [k])"
  by (induction d) (auto split: if_splits)

lemma distinct_keys_extract:
  "distinct (map fst vals) \<Longrightarrow> distinct (map fst (foldl (extract_step fm g pn) vals es))"
proof (induction es arbitrary: vals)
  case Nil
  then show ?case by simp
next
  case (Cons e es)
  have "distinct (map fst (extract_step fm g pn vals e))"
    using Cons.prems by (auto simp: extract_step_def keys_dict_set split: option.splits)
  then show ?case using Cons.IH by simp
qed

lemma distinct_keys_extracted: "distinct (map fst (extract_principled_values fm gs))"
  by (simp add: extract_principled_values_def distinct_keys_extract split: option.splits)

lemma value_mapping_sources: "distinct (map fst value_mapping)"
  by code_simp

text \<open>The value of a table entry whose rivals for the same target have no source input.\<close>

lemma extracted_value:
  assumes "find_idx (\<lambda>n. node_type n = ''BSDF_PRINCIPLED'') (nodes gs) = Some pn"
    and "(src, dname, iv, col) \<in> set value_mapping"
    and "\<forall>e \<in> set value_mapping. fst (snd e) = dname \<and> fst e \<noteq> src
            \<longrightarrow> sock_named (fst e) (inputs (nodes gs ! pn)) = None"
  shows "map_of (extract_principled_values fm gs) dname = read_entry fm gs pn (src, dname, iv, col)"
proof -
  let ?e = "(src, dname, iv, col)"
  have rival: "e' = ?e \<or> read_entry fm gs pn e' = None"
    if "e' \<in> set value_mapping" "fst (snd e') = dname" for e'
  proof (cases "fst e' = src")
    case True
    then have "fst e' = fst ?e" by simp
    then show ?thesis
      using value_mapping_sources that(1) assms(2) by (metis eq_key_imp_eq_value prod.collapse)
  next
    case False
    then have "sock_named (fst e') (inputs (nodes gs ! pn)) = None" using assms(3) that by blast
    then show ?thesis by (simp add: read_entry_def Let_def)
  qed
  have r: "\<forall>e' \<in> set value_mapping. fst (snd e') = dname \<longrightarrow> e' = ?e \<or> read_entry fm gs pn e' = None"
    by (intro ballI impI) (rule rival)
  have f: "fst (snd ?e) = dname" by simp
  from extract_fold_at [OF f r, of "[]"] assms(2)
  show ?thesis
    unfolding extract_principled_values_def assms(1) option.case
    by (cases "read_entry fm gs pn ?e") simp_all
qed

lemma apply_value_hit:
  assumes "fst e \<notin> set emission_names"
    and "resolve_target (nodes (snd st) ! d) (fst e) = Some t"
    and "\<not> is_linked (snd st) (InS d t)"
    and "d < length (nodes (snd st))" and "t < length (inputs (nodes (snd st) ! d))"
  shows "\<not> is_color (snd e) \<Longrightarrow> val (snd e) = Scalar v \<Longrightarrow> resting (snd st) d t = Some (Scalar y)
           \<Longrightarrow> resting (snd (apply_value fm d st e)) d t = Some (Scalar (host_float fm v))"
    and "is_color (snd e) \<Longrightarrow> val (snd e) = Vec [r, gr, b] \<Longrightarrow> resting (snd st) d t = Some (Vec old)
           \<Longrightarrow> length old = 4
           \<Longrightarrow> resting (snd (apply_value fm d st e)) d t = Some (Vec (map (host_float fm) [r, gr, b, 1]))"
    and "is_color (snd e) \<Longrightarrow> val (snd e) = Vec [r, gr, b] \<Longrightarrow> resting (snd st) d t = Some (Vec old)
           \<Longrightarrow> length old = 3
           \<Longrightarrow> resting (snd (apply_value fm d st e)) d t = Some (Vec (map (host_float fm) [r, gr, b]))"
proof -
  have w: "resting (snd (write_value fm d t x st)) d t = Some (stored fm x)"
    if "resting (snd st) d t = Some o'" "same_shape o' x" for x o'
  proof -
    have "set_default fm d t x (snd st) \<noteq> None"
      using that by (simp add: set_default_def resting_def)
    then obtain g1 where g1: "set_default fm d t x (snd st) = Some g1" by blast
    from set_default_effect(3) [OF g1 assms(5) assms(4)] show ?thesis
      by (simp add: write_value_def g1)
  qed
  have em: "\<not> (fst e \<in> set [''Emission Color'', ''Emission Strength''])"
    using assms(1) by (simp add: emission_names_def)
  show "resting (snd (apply_value fm d st e)) d t = Some (Scalar (host_float fm v))"
    if "\<not> is_color (snd e)" "val (snd e) = Scalar v" "resting (snd st) d t = Some (Scalar y)"
  proof -
    have "apply_value fm d st e = write_value fm d t (Scalar v) st"
      unfolding apply_value_def Let_def using em assms(2,3) that(1,2) by simp
    then show ?thesis using w [OF that(3), of "Scalar v"] by (simp add: same_shape_def stored_def)
  qed
  show "resting (snd (apply_value fm d st e)) d t = Some (Vec (map (host_float fm) [r, gr, b, 1]))"
    if "is_color (snd e)" "val (snd e) = Vec [r, gr, b]" "resting (snd st) d t = Some (Vec old)"
       "length old = 4"
  proof -
    have c: "color_for_target (Vec old) [r, gr, b] = Some (Vec [r, gr, b, 1])"
      using that(4) by (simp add: color_for_target_def)
    have "apply_value fm d st e = write_value fm d t (Vec [r, gr, b, 1]) st"
      unfolding apply_value_def Let_def using em assms(2,3) that(1,2,3) c
      by (simp add: resting_def)
    then show ?thesis using w [OF that(3), of "Vec [r, gr, b, 1]"] that(4)
      by (simp add: same_shape_def stored_def)
  qed
  show "resting (snd (apply_value fm d st e)) d t = Some (Vec (map (host_float fm) [r, gr, b]))"
    if "is_color (snd e)" "val (snd e) = Vec [r, gr, b]" "resting (snd st) d t = Some (Vec old)"
       "length old = 3"
  proof -
    have c: "color_for_target (Vec old) [r, gr, b] = Some (Vec [r, gr, b])"
      using that(4) by (simp add: color_for_target_def)
    have "apply_value fm d st e = write_value fm d t (Vec [r, gr, b]) st"
      unfolding apply_value_def Let_def using em assms(2,3) that(1,2,3) c
      by (simp add: resting_def)
    then show ?thesis using w [OF that(3), of "Vec [r, gr, b]"] that(4)
      by (simp add: same_shape_def stored_def)
  qed
qed


lemma value_reaches_target:
  assumes d: "find_idx (\<lambda>n. bl_idname n \<in> set disney_node_types) (nodes g) = Some d"
    and g': "g' = snd (apply_principled_values_to_disney fm h g vals)"
    and keys: "distinct (map fst vals)"
    and m: "map_of vals dname = Some info"
    and ne: "dname \<notin> set emission_names"
    and tgt: "sock_named dname (inputs (nodes g ! d)) = Some t"
    and nl: "\<not> is_linked g' (InS d t)"
    and alone: "\<forall>e \<in> set vals. fst e \<noteq> dname \<and> fst e \<notin> set emission_names
                  \<longrightarrow> resolve_target (nodes g ! d) (fst e) \<noteq> Some t"
  shows "\<not> is_color info \<Longrightarrow> val info = Scalar v \<Longrightarrow> resting g d t = Some (Scalar y)
           \<Longrightarrow> resting g' d t = Some (Scalar (host_float fm v))"
    and "is_color info \<Longrightarrow> val info = Vec [r, gr, b] \<Longrightarrow> resting g d t = Some (Vec old)
           \<Longrightarrow> length old = 4
           \<Longrightarrow> resting g' d t = Some (Vec (map (host_float fm) [r, gr, b, 1]))"
    and "is_color info \<Longrightarrow> val info = Vec [r, gr, b] \<Longrightarrow> resting g d t = Some (Vec old)
           \<Longrightarrow> length old = 3
           \<Longrightarrow> resting g' d t = Some (Vec (map (host_float fm) [r, gr, b]))"
proof -
  obtain st where st: "apply_principled_values_to_disney fm h g vals = foldl (apply_value fm d) st vals"
    "nodes (snd st) ! d = nodes g ! d" "d < length (nodes (snd st))" by (rule apply_start [OF d])
  have "(dname, info) \<in> set vals" using m by (rule map_of_SomeD)
  then obtain pre post where sp: "vals = pre @ (dname, info) # post" by (meson split_list)
  have other: "\<forall>e \<in> set pre \<union> set post. fst e \<noteq> dname" using keys unfolding sp by auto
  have away: "\<forall>e \<in> set pre \<union> set post. fst e \<in> set emission_names
                \<or> resolve_target (nodes g ! d) (fst e) \<noteq> Some t"
    using other alone unfolding sp by auto
  define st1 where "st1 = foldl (apply_value fm d) st pre"
  define st2 where "st2 = apply_value fm d st1 (dname, info)"
  have "g' = snd (foldl (apply_value fm d) st vals)" using g' st(1) by simp
  then have g2: "g' = snd (foldl (apply_value fm d) st2 post)"
    unfolding sp st2_def st1_def by simp
  have n0: "input_names (nodes (snd st) ! d) = input_names (nodes g ! d)" using st(2) by simp
  have n1: "input_names (nodes (snd st1) ! d) = input_names (nodes g ! d)"
    unfolding st1_def using n0 by (simp add: fold_apply_value_keeps)
  have n2: "input_names (nodes (snd st2) ! d) = input_names (nodes g ! d)"
    unfolding st2_def using n1 by (simp add: apply_value_keeps)
  have r1: "resting (snd st1) d t = resting g d t"
  proof -
    have "resting (snd st1) d t = resting (snd st) d t"
      unfolding st1_def by (rule fold_apply_value_elsewhere [OF n0]) (use away in auto)
    then show ?thesis using st(2) by (simp add: resting_def)
  qed
  have r2: "resting g' d t = resting (snd st2) d t"
    unfolding g2 by (rule fold_apply_value_elsewhere [OF n2]) (use away in auto)
  have l1: "links (snd st1) = links g'"
    unfolding g2 st2_def by (simp add: fold_apply_value_frame apply_value_keeps)
  have nl1: "\<not> is_linked (snd st1) (InS d t)" using nl is_linked_cong [OF l1] by simp
  have d1: "d < length (nodes (snd st1))"
  proof -
    have "map bl_idname (nodes (snd st1)) = map bl_idname (nodes (snd st))"
      unfolding st1_def by (simp add: fold_apply_value_frame)
    then have "length (nodes (snd st1)) = length (nodes (snd st))" by (rule map_eq_imp_length_eq)
    then show ?thesis using st(3) by simp
  qed
  have t1: "t < length (inputs (nodes (snd st1) ! d))"
  proof -
    have "map sock_name (inputs (nodes (snd st1) ! d)) = map sock_name (inputs (nodes g ! d))"
      using n1 by (simp add: input_names_def)
    then have "length (inputs (nodes (snd st1) ! d)) = length (inputs (nodes g ! d))"
      by (rule map_eq_imp_length_eq)
    then show ?thesis using sock_named_Some [OF tgt] by simp
  qed
  have rt: "resolve_target (nodes (snd st1) ! d) (fst (dname, info)) = Some t"
    using resolve_target_names [OF n1] resolve_target_exact [OF tgt] by simp
  have ne': "fst (dname, info) \<notin> set emission_names" using ne by simp
  show "resting g' d t = Some (Scalar (host_float fm v))"
    if "\<not> is_color info" "val info = Scalar v" "resting g d t = Some (Scalar y)"
    unfolding r2 st2_def
    by (rule apply_value_hit(1) [OF ne' rt nl1 d1 t1]) (use that r1 in simp_all)
  show "resting g' d t = Some (Vec (map (host_float fm) [r, gr, b, 1]))"
    if "is_color info" "val info = Vec [r, gr, b]" "resting g d t = Some (Vec old)" "length old = 4"
    unfolding r2 st2_def
    by (rule apply_value_hit(2) [OF ne' rt nl1 d1 t1]) (use that r1 in simp_all)
  show "resting g' d t = Some (Vec (map (host_float fm) [r, gr, b]))"
    if "is_color info" "val info = Vec [r, gr, b]" "resting g d t = Some (Vec old)" "length old = 3"
    unfolding r2 st2_def
    by (rule apply_value_hit(3) [OF ne' rt nl1 d1 t1]) (use that r1 in simp_all)
qed

lemma take_three: "3 \<le> length xs \<Longrightarrow> take 3 xs = [xs ! 0, xs ! 1, xs ! 2]"
  by (cases xs; cases "tl xs"; cases "tl (tl xs)") auto


text \<open>
  C8. Value transfer, from the principled node of the source tree to the Disney node of the
  target tree. Only if: an input of the Disney node whose resting value has changed carries
  no link, and it is the input that the lookup of the source finds for the target name of an
  entry of the table whose source input exists and carries no link. Copy: when the source
  input of an entry carries no link, no other entry of the same target name has its source
  input on the node, the Disney node has an input of the target name that carries no link
  and no other extracted value is written to that input, then a scalar \<open>x\<close> arrives as
  \<open>x\<close>, or as \<open>1 - x\<close> when the entry has the invert flag, and a colour arrives as its
  first three components, followed by 1 when the target has four components. The
  subtraction is the one of the language and the stored value is rounded by the host.
\<close>

theorem value_transfer_copies:
  assumes pn: "find_idx (\<lambda>n. node_type n = ''BSDF_PRINCIPLED'') (nodes gs) = Some pn"
    and d: "find_idx (\<lambda>n. bl_idname n \<in> set disney_node_types) (nodes g) = Some d"
    and g': "g' = snd (apply_principled_values_to_disney fm h g (extract_principled_values fm gs))"
  shows "(resting g' d t \<noteq> resting g d t \<longrightarrow>
            \<not> is_linked g' (InS d t) \<and>
            (\<exists>e \<in> set value_mapping. \<exists>j.
                fst (snd e) \<notin> set emission_names \<and>
                sock_named (fst e) (inputs (nodes gs ! pn)) = Some j \<and>
                \<not> is_linked gs (InS pn j) \<and>
                resolve_target (nodes g ! d) (fst (snd e)) = Some t))
       \<and> ((src, dname, iv, col) \<in> set value_mapping \<and> dname \<notin> set emission_names \<and>
          sock_named src (inputs (nodes gs ! pn)) = Some i \<and> \<not> is_linked gs (InS pn i) \<and>
          (\<forall>e \<in> set value_mapping. fst (snd e) = dname \<and> fst e \<noteq> src
               \<longrightarrow> sock_named (fst e) (inputs (nodes gs ! pn)) = None) \<and>
          sock_named dname (inputs (nodes g ! d)) = Some t \<and> \<not> is_linked g' (InS d t) \<and>
          (\<forall>e \<in> set (extract_principled_values fm gs).
               fst e \<noteq> dname \<and> fst e \<notin> set emission_names
               \<longrightarrow> resolve_target (nodes g ! d) (fst e) \<noteq> Some t)
          \<longrightarrow> (\<not> col \<longrightarrow>
                 (\<forall>x y. resting gs pn i = Some (Scalar x) \<and> resting g d t = Some (Scalar y)
                    \<longrightarrow> resting g' d t =
                          Some (Scalar (host_float fm (if iv then py_sub fm 1 x else x)))))
             \<and> (col \<longrightarrow>
                 (\<forall>xs old. resting gs pn i = Some (Vec xs) \<and> 3 \<le> length xs \<and>
                           resting g d t = Some (Vec old) \<and> length old \<in> {3, 4}
                    \<longrightarrow> resting g' d t =
                          Some (Vec (map (host_float fm)
                                  ([xs ! 0, xs ! 1, xs ! 2] @ (if length old = 4 then [1] else [])))))))"
proof (intro conjI impI)
  assume ch: "resting g' d t \<noteq> resting g d t"
  from changed_is_aimed_at [OF d g' ch]
  obtain x where nl: "\<not> is_linked g' (InS d t)"
    and x: "x \<in> set (extract_principled_values fm gs)" "fst x \<notin> set emission_names"
           "resolve_target (nodes g ! d) (fst x) = Some t" by blast
  from extracted_from_table [OF pn x(1)]
  obtain e j where e: "e \<in> set value_mapping" "fst (snd e) = fst x"
    "sock_named (fst e) (inputs (nodes gs ! pn)) = Some j" "\<not> is_linked gs (InS pn j)" by blast
  show "\<not> is_linked g' (InS d t)" by (rule nl)
  show "\<exists>e \<in> set value_mapping. \<exists>j.
                fst (snd e) \<notin> set emission_names \<and>
                sock_named (fst e) (inputs (nodes gs ! pn)) = Some j \<and>
                \<not> is_linked gs (InS pn j) \<and>
                resolve_target (nodes g ! d) (fst (snd e)) = Some t"
    using e x(2,3) by (intro bexI [of _ e] exI [of _ j]) simp_all
next
  assume a: "(src, dname, iv, col) \<in> set value_mapping \<and> dname \<notin> set emission_names \<and>
          sock_named src (inputs (nodes gs ! pn)) = Some i \<and> \<not> is_linked gs (InS pn i) \<and>
          (\<forall>e \<in> set value_mapping. fst (snd e) = dname \<and> fst e \<noteq> src
               \<longrightarrow> sock_named (fst e) (inputs (nodes gs ! pn)) = None) \<and>
          sock_named dname (inputs (nodes g ! d)) = Some t \<and> \<not> is_linked g' (InS d t) \<and>
          (\<forall>e \<in> set (extract_principled_values fm gs).
               fst e \<noteq> dname \<and> fst e \<notin> set emission_names
               \<longrightarrow> resolve_target (nodes g ! d) (fst e) \<noteq> Some t)"
  then have mem: "(src, dname, iv, col) \<in> set value_mapping"
    and ne: "dname \<notin> set emission_names"
    and si: "sock_named src (inputs (nodes gs ! pn)) = Some i"
    and sl: "\<not> is_linked gs (InS pn i)"
    and rival: "\<forall>e \<in> set value_mapping. fst (snd e) = dname \<and> fst e \<noteq> src
               \<longrightarrow> sock_named (fst e) (inputs (nodes gs ! pn)) = None"
    and tgt: "sock_named dname (inputs (nodes g ! d)) = Some t"
    and nl: "\<not> is_linked g' (InS d t)"
    and alone: "\<forall>e \<in> set (extract_principled_values fm gs).
               fst e \<noteq> dname \<and> fst e \<notin> set emission_names
               \<longrightarrow> resolve_target (nodes g ! d) (fst e) \<noteq> Some t"
    by blast+
  have m: "map_of (extract_principled_values fm gs) dname = read_entry fm gs pn (src, dname, iv, col)"
    by (rule extracted_value [OF pn mem rival])
  note reach = value_reaches_target [OF d g' distinct_keys_extracted _ ne tgt nl alone]
  {
    assume c: "\<not> col"
    show "\<forall>x y. resting gs pn i = Some (Scalar x) \<and> resting g d t = Some (Scalar y)
             \<longrightarrow> resting g' d t = Some (Scalar (host_float fm (if iv then py_sub fm 1 x else x)))"
    proof (intro allI impI)
      fix x y
      assume r: "resting gs pn i = Some (Scalar x) \<and> resting g d t = Some (Scalar y)"
      define info where
        "info = \<lparr>val = Scalar (if iv then py_sub fm 1 x else x), is_color = False, invert = iv\<rparr>"
      have "read_entry fm gs pn (src, dname, iv, False) = Some info"
        unfolding read_entry_scalar info_def using si sl r by blast
      then have mi: "map_of (extract_principled_values fm gs) dname = Some info" using m c by simp
      show "resting g' d t = Some (Scalar (host_float fm (if iv then py_sub fm 1 x else x)))"
        by (rule reach(1) [OF mi, of _ y]) (use r in \<open>simp_all add: info_def\<close>)
    qed
  }
  {
    assume c: "col"
    show "\<forall>xs old. resting gs pn i = Some (Vec xs) \<and> 3 \<le> length xs \<and>
                           resting g d t = Some (Vec old) \<and> length old \<in> {3, 4}
                    \<longrightarrow> resting g' d t =
                          Some (Vec (map (host_float fm)
                                  ([xs ! 0, xs ! 1, xs ! 2] @ (if length old = 4 then [1] else []))))"
    proof (intro allI impI)
      fix xs old
      assume r: "resting gs pn i = Some (Vec xs) \<and> 3 \<le> length xs \<and>
                           resting g d t = Some (Vec old) \<and> length old \<in> {3, 4}"
      define info where "info = \<lparr>val = Vec (take 3 xs), is_color = True, invert = iv\<rparr>"
      have "read_entry fm gs pn (src, dname, iv, True) = Some info"
        unfolding read_entry_color info_def using si sl r by blast
      then have mi: "map_of (extract_principled_values fm gs) dname = Some info" using m c by simp
      have v: "val info = Vec [xs ! 0, xs ! 1, xs ! 2]" "is_color info"
        using r by (simp_all add: info_def take_three)
      from r have "length old = 4 \<or> length old = 3" by auto
      then show "resting g' d t =
                          Some (Vec (map (host_float fm)
                                  ([xs ! 0, xs ! 1, xs ! 2] @ (if length old = 4 then [1] else []))))"
      proof
        assume l: "length old = 4"
        from reach(2) [OF mi v(2) v(1) _ l] r l show ?thesis by simp
      next
        assume l: "length old = 3"
        from reach(3) [OF mi v(2) v(1) _ l] r l show ?thesis by simp
      qed
    qed
  }
qed


theorem value_transfer_copies_witness:
  "resting (snd (apply_principled_values_to_disney coarse_floats small_host disney_tree
             (extract_principled_values coarse_floats principled_tree))) 0 1
     = Some (Scalar (115 / 128))
   \<and> resting principled_tree 0 1 = Some (Scalar (1 / 10))
   \<and> resting disney_tree 0 1 = Some (Scalar 1)
   \<and> (''Coat Roughness'', ''Clearcoat Gloss'', True, False) \<in> set value_mapping
   \<and> \<not> is_linked principled_tree (InS 0 1)
   \<and> \<not> is_linked (snd (apply_principled_values_to_disney coarse_floats small_host disney_tree
             (extract_principled_values coarse_floats principled_tree))) (InS 0 1)"
proof -
  define vals where "vals = extract_principled_values coarse_floats principled_tree"
  define g' where "g' = snd (apply_principled_values_to_disney coarse_floats small_host disney_tree vals)"
  have pn: "find_idx (\<lambda>n. node_type n = ''BSDF_PRINCIPLED'') (nodes principled_tree) = Some 0"
    by code_simp
  have d: "find_idx (\<lambda>n. bl_idname n \<in> set disney_node_types) (nodes disney_tree) = Some 0"
    by code_simp
  have g: "g' = snd (apply_principled_values_to_disney coarse_floats small_host disney_tree
                  (extract_principled_values coarse_floats principled_tree))"
    by (simp add: g'_def vals_def)
  have mem: "(''Coat Roughness'', ''Clearcoat Gloss'', True, False) \<in> set value_mapping"
    by code_simp
  have ne: "''Clearcoat Gloss'' \<notin> set emission_names" by code_simp
  have si: "sock_named ''Coat Roughness'' (inputs (nodes principled_tree ! 0)) = Some 1"
    by code_simp
  have sl: "\<not> is_linked principled_tree (InS 0 1)" by code_simp
  have rival: "\<forall>e \<in> set value_mapping. fst (snd e) = ''Clearcoat Gloss'' \<and> fst e \<noteq> ''Coat Roughness''
                 \<longrightarrow> sock_named (fst e) (inputs (nodes principled_tree ! 0)) = None"
    by code_simp
  have tgt: "sock_named ''Clearcoat Gloss'' (inputs (nodes disney_tree ! 0)) = Some 1"
    by code_simp
  have ev: "extract_principled_values coarse_floats principled_tree = vals" by (simp add: vals_def)
  have vs: "vals = [(''Base Color'', \<lparr>val = Vec [4 / 5, 1 / 5, 1 / 10], is_color = True, invert = False\<rparr>),
                    (''Clearcoat Gloss'', \<lparr>val = Scalar (9 / 10), is_color = False, invert = True\<rparr>),
                    (''Emission Color'', \<lparr>val = Vec [1, 1, 1], is_color = True, invert = False\<rparr>),
                    (''Emission Strength'', \<lparr>val = Scalar 2, is_color = False, invert = False\<rparr>)]"
    unfolding vals_def by code_simp
  have lk: "links g' = [(OutS 1 0, InS 0 2)]"
    unfolding g'_def vs by code_simp
  have nl: "\<not> is_linked g' (InS 0 1)" by (simp add: is_linked_def lk)
  have alone: "\<forall>e \<in> set (extract_principled_values coarse_floats principled_tree).
                 fst e \<noteq> ''Clearcoat Gloss'' \<and> fst e \<notin> set emission_names
                 \<longrightarrow> resolve_target (nodes disney_tree ! 0) (fst e) \<noteq> Some 1"
    unfolding ev vs by code_simp
  have rs: "resting principled_tree 0 1 = Some (Scalar (1 / 10))" by code_simp
  have rd: "resting disney_tree 0 1 = Some (Scalar 1)" by code_simp
  have hf: "host_float coarse_floats (py_sub coarse_floats 1 (1 / 10)) = 115 / 128" by code_simp
  from value_transfer_copies [OF pn d g, where src = "''Coat Roughness''" and dname = "''Clearcoat Gloss''"
      and iv = True and col = False and i = 1 and t = 1]
    mem ne si sl rival tgt nl alone rs rd
  have "resting g' 0 1 = Some (Scalar (host_float coarse_floats (py_sub coarse_floats 1 (1 / 10))))"
    by simp
  then have "resting g' 0 1 = Some (Scalar (115 / 128))" unfolding hf .
  then show ?thesis using rs rd mem sl nl unfolding g by blast
qed


section \<open>What the synthesis steps leave alone\<close>

lemma frame_refl: "guarded P g \<Longrightarrow> frame K P g g"
  by (simp add: frame_def)

lemma frame_guarded: "frame K P g x \<Longrightarrow> guarded P x"
  by (simp add: frame_def)

lemma frame_length: "frame K P g x \<Longrightarrow> length (nodes g) \<le> length (nodes x)"
proof -
  assume "frame K P g x"
  then obtain ks where "kinds x = kinds g @ ks" by (auto simp: frame_def)
  then have "length (kinds x) = length (kinds g) + length ks" by simp
  then show ?thesis by (simp add: kinds_def)
qed

lemma frame_trans:
  assumes "frame K P g x" and "frame K P x y"
  shows "frame K P g y"
proof -
  from assms(1) obtain ks where ks: "kinds x = kinds g @ ks" "set ks \<subseteq> K" by (auto simp: frame_def)
  from assms(2) obtain ks' where ks': "kinds y = kinds x @ ks'" "set ks' \<subseteq> K" by (auto simp: frame_def)
  have a: "\<exists>zs. kinds y = kinds g @ zs \<and> set zs \<subseteq> K"
    by (rule exI[of _ "ks @ ks'"]) (use ks ks' in simp)
  have le: "length (nodes g) \<le> length (nodes x)" by (rule frame_length[OF assms(1)])
  have b: "\<forall>n < length (nodes g). input_names (nodes y ! n) = input_names (nodes g ! n)"
  proof (intro allI impI)
    fix n assume n: "n < length (nodes g)"
    then have "n < length (nodes x)" using le by simp
    then have "input_names (nodes y ! n) = input_names (nodes x ! n)" using assms(2) by (simp add: frame_def)
    also have "\<dots> = input_names (nodes g ! n)" using assms(1) n by (simp add: frame_def)
    finally show "input_names (nodes y ! n) = input_names (nodes g ! n)" .
  qed
  have c: "single_dest g \<longrightarrow> single_dest y" using assms by (simp add: frame_def)
  have d: "\<forall>p. P p \<longrightarrow> links_into p y = links_into p g" using assms by (simp add: frame_def)
  have e: "guarded P y" using assms(2) by (simp add: frame_def)
  show ?thesis unfolding frame_def using a b c d e by blast
qed

lemma frame_mono: "frame K P g x \<Longrightarrow> K \<subseteq> K' \<Longrightarrow> frame K' P g x"
  unfolding frame_def by blast

text \<open>One step that changes the graph \<open>x\<close> into \<open>y\<close>, after any steps from \<open>g\<close> to \<open>x\<close>.\<close>

lemma frame_step:
  assumes "frame K P g x"
    and k: "\<exists>ks. kinds y = kinds x @ ks \<and> set ks \<subseteq> K"
    and n: "\<And>n. n < length (nodes x) \<Longrightarrow> input_names (nodes y ! n) = input_names (nodes x ! n)"
    and s: "single_dest x \<Longrightarrow> single_dest y"
    and p: "\<And>p. P p \<Longrightarrow> links_into p y = links_into p x"
  shows "frame K P g y"
proof (rule frame_trans[OF assms(1)])
  have gx: "guarded P x" using assms(1) by (rule frame_guarded)
  have "guarded P y"
    unfolding guarded_def
  proof (intro allI impI)
    fix q assume "P q"
    then obtain m i where q: "q = InS m i" "m < length (nodes x)" "i < length (inputs (nodes x ! m))"
        "sock_name (inputs (nodes x ! m) ! i) = ''Base Color''"
      using gx unfolding guarded_def by blast
    from k have "length (kinds x) \<le> length (kinds y)" by auto
    then have m: "m < length (nodes y)" using q(2) by (simp add: kinds_def)
    have eq: "map sock_name (inputs (nodes y ! m)) = map sock_name (inputs (nodes x ! m))"
      using n[OF q(2)] by (simp add: input_names_def)
    then have len: "length (inputs (nodes y ! m)) = length (inputs (nodes x ! m))"
      by (rule map_eq_imp_length_eq)
    have "sock_name (inputs (nodes y ! m) ! i) = map sock_name (inputs (nodes y ! m)) ! i"
      using len q(3) by simp
    also have "\<dots> = sock_name (inputs (nodes x ! m) ! i)" using eq q(3) by simp
    finally have "sock_name (inputs (nodes y ! m) ! i) = ''Base Color''" using q(4) by simp
    then show "\<exists>n i. q = InS n i \<and> n < length (nodes y) \<and> i < length (inputs (nodes y ! n)) \<and>
                 sock_name (inputs (nodes y ! n) ! i) = ''Base Color''"
      using q(1) m len q(3) by auto
  qed
  then show "frame K P x y" unfolding frame_def using k n s p by blast
qed

lemma frame_links_new:
  assumes "frame K P g x" and "\<not> P dst"
  shows "frame K P g (links_new x src dst)"
proof (rule frame_step[OF assms(1)])
  show "\<exists>ks. kinds (links_new x src dst) = kinds x @ ks \<and> set ks \<subseteq> K"
    by (rule exI[of _ "[]"]) (simp add: kinds_def)
  show "single_dest x \<Longrightarrow> single_dest (links_new x src dst)"
    by (auto simp: single_dest_def links_links_new distinct_map_filter)
  show "\<And>p. P p \<Longrightarrow> links_into p (links_new x src dst) = links_into p x"
  proof -
    fix p assume "P p"
    then have "p \<noteq> dst" using assms(2) by auto
    then have "filter (\<lambda>l. snd l = p) (filter (\<lambda>l. snd l \<noteq> dst) (links x)) = filter (\<lambda>l. snd l = p) (links x)"
      by (induction "links x") (auto intro: filter_cong)
    then show "links_into p (links_new x src dst) = links_into p x"
      using \<open>p \<noteq> dst\<close> by (simp add: links_into_def links_links_new)
  qed
qed simp

lemma distinct_map_remove1: "distinct (map f xs) \<Longrightarrow> distinct (map f (remove1 l xs))"
proof (induction xs)
  case Nil then show ?case by simp
next
  case (Cons a xs)
  have "f a \<notin> f ` set (remove1 l xs)" using Cons.prems set_remove1_subset[of l xs] by auto
  then show ?case using Cons by auto
qed

lemma filter_remove1_other:
  "snd l \<noteq> p \<Longrightarrow> filter (\<lambda>l. snd l = p) (remove1 l xs) = filter (\<lambda>l. snd l = p) xs"
  by (induction xs) auto

lemma frame_links_remove:
  assumes "frame K P g x" and "\<not> P (snd l)"
  shows "frame K P g (links_remove x l)"
proof (rule frame_step[OF assms(1)])
  show "\<exists>ks. kinds (links_remove x l) = kinds x @ ks \<and> set ks \<subseteq> K"
    by (rule exI[of _ "[]"]) (simp add: kinds_def links_remove_def)
  show "single_dest x \<Longrightarrow> single_dest (links_remove x l)"
  proof -
    assume "single_dest x"
    then have "distinct (map snd (links x))" by (simp add: single_dest_def)
    then have "distinct (map snd (remove1 l (links x)))"
      by (rule distinct_map_remove1)
    then show ?thesis by (simp add: single_dest_def links_remove_def)
  qed
  show "\<And>p. P p \<Longrightarrow> links_into p (links_remove x l) = links_into p x"
  proof -
    fix p assume "P p"
    then have "snd l \<noteq> p" using assms(2) by auto
    then have "filter (\<lambda>l. snd l = p) (remove1 l (links x)) = filter (\<lambda>l. snd l = p) (links x)"
      by (rule filter_remove1_other)
    then show "links_into p (links_remove x l) = links_into p x"
      by (simp add: links_into_def links_remove_def)
  qed
qed (simp add: links_remove_def)

lemma frame_print: "frame K P g x \<Longrightarrow> frame K P g (print s x)"
  by (rule frame_step) (auto simp: print_def kinds_def single_dest_def links_into_def)

lemma frame_report: "frame K P g x \<Longrightarrow> frame K P g (report l s x)"
  by (rule frame_step) (auto simp: report_def kinds_def single_dest_def links_into_def)

lemma frame_upd_node:
  assumes "frame K P g x"
    and "\<And>n. bl_idname (f n) = bl_idname n" and "\<And>n. map sock_name (inputs (f n)) = map sock_name (inputs n)"
  shows "frame K P g (upd_node i f x)"
proof (rule frame_step[OF assms(1)])
  show "\<exists>ks. kinds (upd_node i f x) = kinds x @ ks \<and> set ks \<subseteq> K"
    by (rule exI[of _ "[]"]) (simp add: kinds_def kinds_upd_node assms(2))
  show "\<And>n. n < length (nodes x) \<Longrightarrow> input_names (nodes (upd_node i f x) ! n) = input_names (nodes x ! n)"
    by (simp add: nodes_upd_node_nth input_names_def assms(3))
qed (simp_all add: single_dest_def links_into_def)

lemma frame_set_label: "frame K P g x \<Longrightarrow> frame K P g (set_label i s x)"
  unfolding set_label_def by (rule frame_upd_node) simp_all

lemma frame_add_label: "frame K P g x \<Longrightarrow> frame K P g (add_label i s x)"
  unfolding add_label_def by (rule frame_upd_node) simp_all

lemma frame_setattr: "frame K P g x \<Longrightarrow> frame K P g (setattr i k v x)"
  unfolding setattr_def by (rule frame_upd_node) simp_all

lemma frame_assign_attr: "frame K P g x \<Longrightarrow> frame K P g (assign_attr i k v x)"
  unfolding assign_attr_def by (rule frame_upd_node) simp_all

lemma frame_nodes_new:
  assumes "frame K P g x" and "nodes_new h x kind = Inr (n, y)" and "kind \<in> K"
  shows "frame K P g y \<and> n = length (nodes x) \<and> (\<forall>i. \<not> P (InS n i))"
proof -
  from assms(2) obtain tmpl where y: "y = x\<lparr>nodes := nodes x @ [tmpl\<lparr>bl_idname := kind\<rparr>]\<rparr>" and n: "n = length (nodes x)"
    by (auto simp: nodes_new_def split: sum.splits)
  have "frame K P g y"
  proof (rule frame_step[OF assms(1)])
    show "\<exists>ks. kinds y = kinds x @ ks \<and> set ks \<subseteq> K"
      by (rule exI[of _ "[kind]"]) (simp add: kinds_def y assms(3))
  qed (simp_all add: y nth_append single_dest_def links_into_def)
  moreover have "\<forall>i. \<not> P (InS n i)"
    using frame_guarded[OF assms(1)] n unfolding guarded_def by fastforce
  ultimately show ?thesis using n by simp
qed

lemma frame_new_first_accepted:
  assumes "frame K P g x" and "new_first_accepted h x ks = Some (n, y)" and "set ks \<subseteq> K"
  shows "frame K P g y \<and> n = length (nodes x) \<and> (\<forall>i. \<not> P (InS n i))"
  using assms(2,3)
proof (induction ks)
  case Nil then show ?case by simp
next
  case (Cons k ks)
  show ?case
  proof (cases "nodes_new h x k")
    case (Inl e) then show ?thesis using Cons by auto
  next
    case (Inr r)
    then have "nodes_new h x k = Inr (n, y)" using Cons.prems by simp
    moreover have "k \<in> K" using Cons.prems by simp
    ultimately show ?thesis by (rule frame_nodes_new[OF assms(1)])
  qed
qed

text \<open>A socket whose name is not \<open>Base Color\<close> is not guarded.\<close>

lemma guarded_other_name:
  "guarded P x \<Longrightarrow> sock_name (inputs (nodes x ! n) ! i) \<noteq> ''Base Color'' \<Longrightarrow> \<not> P (InS n i)"
  unfolding guarded_def by fastforce

lemma guarded_output: "guarded P x \<Longrightarrow> \<not> P (OutS n i)"
  unfolding guarded_def by fastforce


text \<open>What the elementary steps do to the kinds and to the diagnostics.\<close>

lemma kinds_basic [simp]:
  "kinds (set_label i s g) = kinds g" "kinds (add_label i s g) = kinds g"
  "kinds (setattr i k v g) = kinds g" "kinds (links_new g a b) = kinds g"
  "kinds (print s g) = kinds g" "kinds (report l s g) = kinds g"
  by (simp_all add: kinds_def set_label_def add_label_def setattr_def kinds_upd_node print_def report_def)

lemma diags_basic [simp]:
  "diags (upd_node i f g) = diags g" "diags (set_label i s g) = diags g"
  "diags (add_label i s g) = diags g" "diags (setattr i k v g) = diags g"
  "diags (links_new g a b) = diags g"
  "diags (print s g) = diags g @ [Print s]" "diags (report l s g) = diags g @ [Report l s]"
  by (simp_all add: set_label_def add_label_def setattr_def upd_node_def links_new_def print_def report_def)

lemma links_basic [simp]:
  "links (set_label i s g) = links g" "links (add_label i s g) = links g"
  "links (setattr i k v g) = links g" "links (print s g) = links g" "links (report l s g) = links g"
  by (simp_all add: set_label_def add_label_def setattr_def print_def report_def)

lemma nodes_print [simp]: "nodes (print s g) = nodes g"
  by (simp add: print_def)

lemmas frame_intros = frame_print frame_report frame_set_label frame_add_label frame_setattr
  frame_assign_attr frame_links_new frame_links_remove

lemma lower_base_color: "lower ''Base Color'' = ''base color''"
  by code_simp

lemma base_color_fragments:
  "\<not> contains ''bump'' ''base color''" "\<not> contains ''normal'' ''base color''"
  "\<not> contains ''emission'' ''base color''" "\<not> contains ''emit'' ''base color''"
  "\<not> contains ''rough'' ''base color''" "\<not> contains ''metal'' ''base color''"
  "\<not> contains ''spec'' ''base color''" "contains ''color'' ''base color''"
  by code_simp+

lemma base_color_no_mapping: "\<not> (\<exists>m \<in> set mapping_inputs. contains (lower m) ''base color'')"
  by code_simp

lemma find_bump_socket_name:
  "find_bump_socket m = Some i \<Longrightarrow> sock_name (inputs m ! i) \<noteq> ''Base Color''"
  unfolding find_bump_socket_def
  by (auto split: option.splits dest!: first_named_Some find_idx_Some
        simp: lower_base_color base_color_fragments simp del: first_named.simps)

lemma find_input_emission_name:
  "find_input ''Emission'' [''emission'', ''emit''] m = Some i \<Longrightarrow> sock_name (inputs m ! i) \<noteq> ''Base Color''"
  unfolding find_input_def
  by (auto split: option.splits dest!: sock_named_Some find_idx_Some simp: lower_base_color base_color_fragments)

lemma frame_connect_mapping_to_texture:
  assumes "frame K P g x"
  shows "frame K P g (snd (connect_mapping_to_texture x mapping tex))"
proof -
  have gx: "guarded P x" by (rule frame_guarded[OF assms])
  have a: "\<And>i. find_idx (\<lambda>k. \<exists>m \<in> set mapping_inputs. contains (lower m) (lower (sock_name k)))
                 (inputs (nodes x ! tex)) = Some i \<Longrightarrow> \<not> P (InS tex i)"
  proof (rule guarded_other_name[OF gx])
    fix i assume "find_idx (\<lambda>k. \<exists>m \<in> set mapping_inputs. contains (lower m) (lower (sock_name k)))
                 (inputs (nodes x ! tex)) = Some i"
    from find_idx_Some[OF this] show "sock_name (inputs (nodes x ! tex) ! i) \<noteq> ''Base Color''"
      using base_color_no_mapping by (auto simp: lower_base_color)
  qed
  have b: "\<not> contains ''color'' (lower (sock_name (inputs (nodes x ! tex) ! 0))) \<Longrightarrow> \<not> P (InS tex 0)"
    by (rule guarded_other_name[OF gx]) (auto simp: lower_base_color base_color_fragments)
  show ?thesis
    unfolding connect_mapping_to_texture_def Let_def
    by (auto split: option.splits intro!: frame_intros assms simp: a b)
qed


lemma frame_activate_normal_map:
  "frame K P g x \<Longrightarrow> frame K P g (activate_normal_map x tex)"
  unfolding activate_normal_map_def Let_def
  by (auto split: option.splits intro!: frame_intros)

subsection \<open>Emission\<close>

lemma frame_emission_from_texture:
  "frame K P g x \<Longrightarrow> emission_from_texture n tex x = Some y \<Longrightarrow> \<forall>i. \<not> P (InS n i) \<Longrightarrow> frame K P g y"
  unfolding emission_from_texture_def
  by (auto split: option.splits if_splits intro!: frame_intros)

lemma frame_emission_to_material:
  assumes "frame K P g x"
  shows "frame K P g (snd (emission_to_material n m x))"
proof -
  have "\<And>i. find_input ''Emission'' [''emission'', ''emit''] (nodes x ! m) = Some i \<Longrightarrow> \<not> P (InS m i)"
    by (rule guarded_other_name[OF frame_guarded[OF assms]]) (rule find_input_emission_name)
  then show ?thesis
    unfolding emission_to_material_def
    by (auto split: option.splits intro!: frame_intros assms)
qed

lemma frame_setup_emission:
  assumes "frame K P g x" and "''LuxCoreNodeMatEmission'' \<in> K"
  shows "frame K P g (snd (setup_emission h x m tex))"
proof (cases "nodes_new h x ''LuxCoreNodeMatEmission''")
  case (Inl e)
  then show ?thesis by (simp add: setup_emission_def frame_print assms(1))
next
  case (Inr r)
  obtain n x1 where r: "r = (n, x1)" by (cases r)
  from frame_nodes_new[OF assms(1) Inr[unfolded r] assms(2)]
  have x1: "frame K P g x1" and np: "\<forall>i. \<not> P (InS n i)" by blast+
  have x2: "frame K P g (set_label n ''Emission'' x1)" by (rule frame_set_label[OF x1])
  show ?thesis
  proof (cases "emission_from_texture n tex (set_label n ''Emission'' x1)")
    case None
    then show ?thesis using Inr r by (simp add: setup_emission_def frame_print x2)
  next
    case (Some y)
    have "frame K P g y" by (rule frame_emission_from_texture[OF x2 Some np])
    then show ?thesis using Inr r Some by (simp add: setup_emission_def frame_emission_to_material)
  qed
qed

subsection \<open>Bump\<close>

lemma bump_defaults_names: "map sock_name (fst (bump_defaults ks)) = map sock_name ks"
  by (induction ks) (simp_all add: Let_def)

lemma frame_fold_print: "frame K P g x \<Longrightarrow> frame K P g (fold print ss x)"
  by (induction ss arbitrary: x) (simp_all add: frame_print)

lemma frame_bump_set_defaults: "frame K P g x \<Longrightarrow> frame K P g (bump_set_defaults n x)"
  unfolding bump_set_defaults_def
  by (rule frame_fold_print, rule frame_upd_node) (simp_all add: bump_defaults_names)

lemma frame_bump_from_texture:
  "frame K P g x \<Longrightarrow> bump_from_texture n tex x = Some y \<Longrightarrow> \<forall>i. \<not> P (InS n i) \<Longrightarrow> frame K P g y"
  unfolding bump_from_texture_def
  by (auto split: option.splits if_splits intro!: frame_intros)

lemma frame_bump_to_material:
  assumes "frame K P g x"
  shows "frame K P g (snd (bump_to_material n m tex x))"
proof -
  have "\<And>i. find_bump_socket (nodes x ! m) = Some i \<Longrightarrow> \<not> P (InS m i)"
    by (rule guarded_other_name[OF frame_guarded[OF assms]]) (rule find_bump_socket_name)
  then show ?thesis
    unfolding bump_to_material_def Let_def
    by (auto split: option.splits intro!: frame_intros assms)
qed

lemma frame_setup_bump:
  assumes "frame K P g x" and "''LuxCoreNodeTexBump'' \<in> K"
  shows "frame K P g (snd (setup_bump h x m tex))"
proof (cases "nodes_new h x ''LuxCoreNodeTexBump''")
  case (Inl e)
  then show ?thesis by (simp add: setup_bump_def frame_print assms(1))
next
  case (Inr r)
  obtain n x1 where r: "r = (n, x1)" by (cases r)
  from frame_nodes_new[OF assms(1) Inr[unfolded r] assms(2)]
  have x1: "frame K P g x1" and np: "\<forall>i. \<not> P (InS n i)" by blast+
  have x2: "frame K P g (bump_set_defaults n (set_label n ''Bump'' x1))"
    by (rule frame_bump_set_defaults[OF frame_set_label[OF x1]])
  show ?thesis
  proof (cases "bump_from_texture n tex (bump_set_defaults n (set_label n ''Bump'' x1))")
    case None
    then show ?thesis using Inr r by (simp add: setup_bump_def frame_print x2)
  next
    case (Some y)
    have "frame K P g y" by (rule frame_bump_from_texture[OF x2 Some np])
    then show ?thesis using Inr r Some by (simp add: setup_bump_def frame_bump_to_material)
  qed
qed

subsection \<open>The splitter of a combined texture\<close>

lemma frame_split_from_texture:
  "frame K P g x \<Longrightarrow> \<forall>i. \<not> P (InS n i) \<Longrightarrow> frame K P g (split_from_texture ty tex n x)"
  unfolding split_from_texture_def
  by (auto split: option.splits intro!: frame_intros)

lemma frame_set_non_color: "frame K P g x \<Longrightarrow> frame K P g (set_non_color tex x)"
  unfolding set_non_color_def by (auto intro!: frame_intros)

lemma frame_connect_channel:
  assumes "frame K P g x" and "sname \<noteq> ''Base Color''" and "\<not> contains frag ''base color''"
  shows "frame K P g (connect_channel n ch m sname frag what x)"
proof -
  have gx: "guarded P x" by (rule frame_guarded[OF assms(1)])
  have a: "\<And>i. sock_named sname (inputs (nodes x ! m)) = Some i \<Longrightarrow> \<not> P (InS m i)"
    by (rule guarded_other_name[OF gx]) (use assms(2) in \<open>auto dest: sock_named_Some\<close>)
  have b: "\<And>i. find_idx (\<lambda>k. contains frag (lower (sock_name k))) (inputs (nodes x ! m)) = Some i
             \<Longrightarrow> \<not> P (InS m i)"
    by (rule guarded_other_name[OF gx]) (use assms(3) in \<open>auto dest!: find_idx_Some simp: lower_base_color\<close>)
  show ?thesis
    unfolding connect_channel_def
    by (auto split: option.splits intro!: frame_intros assms(1) simp: a b)
qed

lemma frame_split_channels: "frame K P g x \<Longrightarrow> frame K P g (split_channels ty n m x)"
  unfolding split_channels_def
  by (auto intro!: frame_connect_channel simp: base_color_fragments)

lemma frame_split_result: "frame K P g x \<Longrightarrow> frame K P g (snd (split_result ty tex n x))"
  unfolding split_result_def by (auto intro!: frame_intros)

lemma frame_setup_combined_texture:
  assumes "frame K P g x" and "''LuxCoreNodeTexSplitFloat3'' \<in> K"
  shows "frame K P g (snd (setup_combined_texture h x m tex ty))"
proof -
  let ?x0 = "print (''DEBUG: Configuring '' @ type_name ty @ '' texture: '' @ name (nodes x ! tex)) x"
  have x0: "frame K P g ?x0" by (rule frame_print[OF assms(1)])
  show ?thesis
  proof (cases "nodes_new h ?x0 ''LuxCoreNodeTexSplitFloat3''")
    case (Inl e)
    show ?thesis unfolding setup_combined_texture_def Inl sum.case snd_conv
      by (rule frame_print[OF x0])
  next
    case (Inr r)
    obtain n x1 where r: "r = (n, x1)" by (cases r)
    from frame_nodes_new[OF x0 Inr[unfolded r] assms(2)]
    have x1: "frame K P g x1" and np: "\<forall>i. \<not> P (InS n i)" by blast+
    have "frame K P g (snd (split_result ty tex n (split_channels ty n m (set_non_color tex
             (split_from_texture ty tex n (set_label n (''Split '' @ upper (type_name ty)) x1))))))"
      by (intro frame_split_result frame_split_channels frame_set_non_color frame_split_from_texture
            frame_set_label x1 np)
    then show ?thesis unfolding setup_combined_texture_def Inr r sum.case prod.case .
  qed
qed

subsection \<open>Displacement\<close>

lemma frame_displacement_props: "frame K P g x \<Longrightarrow> frame K P g (displacement_props dn tex height x)"
  unfolding displacement_props_def Let_def
  by (auto split: option.splits intro!: frame_intros)

lemma frame_displacement_from_texture:
  "frame K P g x \<Longrightarrow> \<forall>i. \<not> P (InS dn i) \<Longrightarrow> frame K P g (displacement_from_texture dn tex x)"
  unfolding displacement_from_texture_def
  by (auto split: option.splits intro!: frame_intros simp del: first_named.simps)

lemma frame_subdivision_to_displacement:
  "frame K P g x \<Longrightarrow> \<forall>i. \<not> P (InS dn i) \<Longrightarrow> frame K P g (subdivision_to_displacement sn dn x)"
  unfolding subdivision_to_displacement_def
  by (auto split: option.splits intro!: frame_intros)

lemma frame_add_subdivision:
  assumes "frame K P g x" and "\<forall>i. \<not> P (InS dn i)" and "''LuxCoreNodeShapeSubdiv'' \<in> K"
  shows "frame K P g (add_subdivision h dn x)"
proof (cases "nodes_new h x ''LuxCoreNodeShapeSubdiv''")
  case (Inl e)
  then show ?thesis by (simp add: add_subdivision_def frame_print assms(1))
next
  case (Inr r)
  obtain n x1 where r: "r = (n, x1)" by (cases r)
  from frame_nodes_new[OF assms(1) Inr[unfolded r] assms(3)]
  have x1: "frame K P g x1" by blast
  show ?thesis using Inr r
    by (simp add: add_subdivision_def frame_subdivision_to_displacement frame_set_label x1 assms(2))
qed

lemma frame_displacement_to_output:
  assumes "frame K P g x"
  shows "frame K P g (displacement_to_output dn mo x)"
proof -
  have "\<And>i. first_named [''Displacement'', ''displacement'', ''Shape'', ''shape''] (inputs (nodes x ! mo)) = Some i
          \<Longrightarrow> \<not> P (InS mo i)"
    by (rule guarded_other_name[OF frame_guarded[OF assms]])
       (auto dest!: first_named_Some simp del: first_named.simps)
  then show ?thesis
    unfolding displacement_to_output_def
    by (auto split: option.splits intro!: frame_intros assms simp del: first_named.simps)
qed

lemma frame_setup_displacement:
  assumes "frame K P g x" and "set displacement_node_types \<subseteq> K" and "''LuxCoreNodeShapeSubdiv'' \<in> K"
  shows "frame K P g (setup_displacement h x m tex mo height)"
proof (cases mo)
  case None
  then show ?thesis by (simp add: setup_displacement_def assms(1))
next
  case (Some o_node)
  show ?thesis
  proof (cases "new_first_accepted h x displacement_node_types")
    case None
    then show ?thesis using Some by (simp add: setup_displacement_def assms(1))
  next
    case (Some r)
    obtain dn x1 where r: "r = (dn, x1)" by (cases r)
    from frame_new_first_accepted[OF assms(1) Some[unfolded r] assms(2)]
    have x1: "frame K P g x1" and np: "\<forall>i. \<not> P (InS dn i)" by blast+
    have "frame K P g (displacement_to_output dn o_node (add_subdivision h dn
            (displacement_from_texture dn tex (displacement_props dn tex height
               (set_label dn ''Height Displacement'' x1)))))"
      by (intro frame_displacement_to_output frame_add_subdivision frame_displacement_from_texture
            frame_displacement_props frame_set_label x1 np assms(3))
    then show ?thesis using Some r \<open>mo = Some o_node\<close> by (simp add: setup_displacement_def)
  qed
qed

lemma connect_mapping_to_texture_quiet:
  "diags (snd (connect_mapping_to_texture g m t)) = diags g \<and>
   kinds (snd (connect_mapping_to_texture g m t)) = kinds g"
  unfolding connect_mapping_to_texture_def Let_def
  by (auto split: option.splits)

subsection \<open>Colour times occlusion\<close>

lemma frame_label_ao_source: "frame K P g x \<Longrightarrow> frame K P g (label_ao_source src x)"
  unfolding label_ao_source_def by (auto split: option.splits intro!: frame_intros)

lemma frame_color_to_math:
  "frame K P g x \<Longrightarrow> color_to_math n col i x = Some y \<Longrightarrow> \<forall>i. \<not> P (InS n i) \<Longrightarrow> frame K P g y"
  unfolding color_to_math_def by (auto split: option.splits intro!: frame_intros)

lemma frame_ao_to_math:
  "frame K P g x \<Longrightarrow> \<forall>i. \<not> P (InS n i) \<Longrightarrow> frame K P g (ao_to_math n ch src i x)"
  unfolding ao_to_math_def by (auto intro!: frame_label_ao_source frame_intros)

lemma frame_ao_input_step:
  assumes "frame K P g (snd (snd st))" and "\<forall>i. \<not> P (InS n i)"
  shows "frame K P g (snd (snd (ao_input_step n col ch src st i)))"
  unfolding ao_input_step_def Let_def
  using assms
  by (auto split: option.splits intro: frame_color_to_math frame_ao_to_math)

lemma frame_ao_input_loop:
  assumes "\<forall>i. \<not> P (InS n i)"
  shows "frame K P g (snd (snd st)) \<Longrightarrow> frame K P g (snd (snd (foldl (ao_input_step n col ch src) st is)))"
  by (induction "is" arbitrary: st) (simp_all add: frame_ao_input_step assms)

lemma frame_ao_fallback_color:
  assumes "frame K P g (snd (snd st))" and "\<forall>i. \<not> P (InS n i)"
  shows "frame K P g (snd (snd (ao_fallback_color n col st)))"
  unfolding ao_fallback_color_def using assms
  by (auto split: option.splits intro: frame_color_to_math)

lemma frame_ao_fallback_ao:
  assumes "frame K P g (snd (snd st))" and "\<forall>i. \<not> P (InS n i)"
  shows "frame K P g (snd (snd (ao_fallback_ao n ch src st)))"
  unfolding ao_fallback_ao_def using assms
  by (auto intro: frame_ao_to_math)

lemma frame_math_to_base_color:
  assumes "frame K P g (snd (snd st))" and "\<forall>i. \<not> P (InS m i)"
  shows "frame K P g (math_to_base_color n m st)"
  unfolding math_to_base_color_def Let_def using assms
  by (auto split: option.splits intro!: frame_intros)

lemma frame_connect_color_directly:
  assumes "frame K P g x" and "\<forall>i. \<not> P (InS m i)"
  shows "frame K P g (snd (connect_color_directly x m col))"
  unfolding connect_color_directly_def using assms
  by (auto split: option.splits intro!: frame_intros)

lemma frame_math_set_multiply: "frame K P g x \<Longrightarrow> frame K P g (math_set_multiply n x)"
  unfolding math_set_multiply_def by (auto intro!: frame_intros)

lemma frame_setup_ao_multiply:
  assumes "frame K P g x" and "\<forall>i. \<not> P (InS m i)" and "set math_node_types \<subseteq> K"
  shows "frame K P g (setup_ao_multiply h x m col ch src)"
proof (cases "new_first_accepted h x math_node_types")
  case None
  show ?thesis unfolding setup_ao_multiply_def None option.case
    by (intro frame_connect_color_directly frame_print assms)
next
  case (Some r)
  obtain n x1 where r: "r = (n, x1)" by (cases r)
  from frame_new_first_accepted[OF assms(1) Some[unfolded r] assms(3)]
  have x1: "frame K P g x1" and np: "\<forall>i. \<not> P (InS n i)" by blast+
  have x2: "frame K P g (snd (snd (False, False, math_set_multiply n (set_label n ''AO Multiply'' x1))))"
    by (simp add: frame_math_set_multiply frame_set_label x1)
  show ?thesis unfolding setup_ao_multiply_def Some r option.case prod.case
    by (intro frame_math_to_base_color frame_ao_fallback_ao frame_ao_fallback_color
          frame_ao_input_loop x2 np assms(2))
qed

subsection \<open>The second pass\<close>

lemma frame_connect_normal:
  assumes "frame K P g (tree st)"
  shows "frame K P g (tree (connect_normal a st tex))"
proof -
  let ?x = "set_label tex (''NORMAL: '' @ label_or_name (nodes (tree st) ! tex)) (tree st)"
  have x: "frame K P g ?x" by (rule frame_set_label[OF assms])
  have "\<And>i. find_bump_socket (nodes ?x ! material_node a) = Some i \<Longrightarrow> \<not> P (InS (material_node a) i)"
    by (rule guarded_other_name[OF frame_guarded[OF x]]) (rule find_bump_socket_name)
  then show ?thesis
    unfolding connect_normal_def Let_def
    by (auto split: option.splits intro!: frame_activate_normal_map frame_intros assms)
qed

lemma frame_connect_direct:
  assumes "frame K P g (tree st)"
    and "(\<forall>i. \<not> P (InS (material_node a) i)) \<or> socket (snd (snd item)) \<noteq> Some ''Base Color''"
  shows "frame K P g (tree (connect_direct a st item))"
proof -
  have "\<And>s i. socket (snd (snd item)) = Some s \<Longrightarrow>
          sock_named s (inputs (nodes (tree st) ! material_node a)) = Some i \<Longrightarrow> \<not> P (InS (material_node a) i)"
  proof -
    fix s i assume s: "socket (snd (snd item)) = Some s"
      and i: "sock_named s (inputs (nodes (tree st) ! material_node a)) = Some i"
    show "\<not> P (InS (material_node a) i)"
    proof (cases "\<forall>i. \<not> P (InS (material_node a) i)")
      case True then show ?thesis by simp
    next
      case False
      then have "s \<noteq> ''Base Color''" using assms(2) s by auto
      then show ?thesis using sock_named_Some[OF i]
        by (intro guarded_other_name[OF frame_guarded[OF assms(1)]]) simp
    qed
  qed
  then show ?thesis
    unfolding connect_direct_def Let_def
    by (cases item) (auto split: option.splits intro!: frame_intros assms(1))
qed

lemma frame_process_texture:
  assumes fr: "frame K P g (tree st)" and K: "synthesis_kinds \<subseteq> K"
    and item: "(\<forall>i. \<not> P (InS (material_node a) i)) \<or> fst (snd item) = Color
               \<or> socket (snd (snd item)) \<noteq> Some ''Base Color''"
  shows "frame K P g (tree (process_texture h a st item))"
proof -
  obtain tex ty info where it: "item = (tex, ty, info)" by (cases item)
  show ?thesis
  proof (cases "ty \<in> {Metallic, Roughness, Ao, Specular} \<and> ty \<in> covered_types st")
    case True
    then show ?thesis unfolding it process_texture_def by (simp add: frame_print fr)
  next
    case False
    define g0 where "g0 = (case mapping_node a of
                       Some m \<Rightarrow> (if create_uv_node a
                                   then snd (connect_mapping_to_texture (tree st) m tex)
                                   else tree st)
                     | None \<Rightarrow> tree st)"
    have g0: "frame K P g g0"
      unfolding g0_def by (auto split: option.splits intro: frame_connect_mapping_to_texture fr)
    have k: "''LuxCoreNodeTexSplitFloat3'' \<in> K" "''LuxCoreNodeTexBump'' \<in> K"
      "''LuxCoreNodeMatEmission'' \<in> K" "''LuxCoreNodeShapeSubdiv'' \<in> K" "set displacement_node_types \<subseteq> K"
      using K by (auto simp: synthesis_kinds_def)
    have comb: "frame K P g (snd (setup_combined_texture h g0 (material_node a) tex ty))"
      by (rule frame_setup_combined_texture[OF g0 k(1)])
    have bump: "frame K P g (snd (setup_bump h g0 (material_node a) tex))"
      by (rule frame_setup_bump[OF g0 k(2)])
    have emis: "frame K P g (snd (setup_emission h g0 (material_node a) tex))"
      by (rule frame_setup_emission[OF g0 k(3)])
    have disp: "frame K P g (setup_displacement h g0 (material_node a) tex (material_output a) (displacement_height a))"
      by (rule frame_setup_displacement[OF g0 k(5) k(4)])
    have norm: "frame K P g (tree (connect_normal a (st\<lparr>tree := g0, covered_types := insert ty (covered_types st)\<rparr>) tex))"
      by (rule frame_connect_normal) (simp add: g0)
    have dir: "ty \<noteq> Color \<Longrightarrow> frame K P g (tree (connect_direct a (st\<lparr>tree := g0, covered_types := insert ty (covered_types st)\<rparr>) (tex, ty, info)))"
      by (rule frame_connect_direct) (use item it in \<open>auto simp: g0\<close>)
    have eq: "process_texture h a st (tex, ty, info) =
          (if ty = Orm then
                (let (ch, g1) = setup_combined_texture h g0 (material_node a) tex ty
                 in st\<lparr>tree := g1,
                        covered_types := covered_types st \<union> {Metallic, Roughness, Ao},
                        orm_node := Some tex,
                        orm_ao_channel := ch,
                        connected_count := connected_count st + (if ch \<noteq> None then 1 else 0)\<rparr>)
              else if ty = Ors then
                (let (ch, g1) = setup_combined_texture h g0 (material_node a) tex ty
                 in st\<lparr>tree := g1,
                        covered_types := covered_types st \<union> {Specular, Roughness, Ao},
                        ors_node := Some tex,
                        ors_ao_channel := ch,
                        connected_count := connected_count st + (if ch \<noteq> None then 1 else 0)\<rparr>)
              else
                (let st1 = st\<lparr>tree := g0, covered_types := insert ty (covered_types st)\<rparr>
                 in if ty = Color then
                      st1\<lparr>color_node := Some tex,
                          tree := set_label tex (''COLOR: '' @ label_or_name (nodes g0 ! tex)) g0\<rparr>
                    else if ty = Ao then
                      st1\<lparr>ao_node := Some tex,
                          tree := set_label tex (''AO: '' @ label_or_name (nodes g0 ! tex)) g0\<rparr>
                    else if ty = Normal then connect_normal a st1 tex
                    else if ty = Bump then
                      (case setup_bump h g0 (material_node a) tex of
                         (True, g1) \<Rightarrow>
                           st1\<lparr>tree := set_label tex (''BUMP: '' @ label_or_name (nodes g1 ! tex)) g1,
                               connected_count := connected_count st + 1\<rparr>
                       | (False, g1) \<Rightarrow> st1\<lparr>tree := g1\<rparr>)
                    else if ty = Height then
                      (let g1 = setup_displacement h g0 (material_node a) tex (material_output a)
                                  (displacement_height a)
                       in st1\<lparr>height_nodes := height_nodes st @ [tex],
                              tree := set_label tex (''HEIGHT: '' @ label_or_name (nodes g1 ! tex)) g1,
                              connected_count := connected_count st + 1\<rparr>)
                    else if ty = Emission then
                      (case setup_emission h g0 (material_node a) tex of
                         (True, g1) \<Rightarrow>
                           st1\<lparr>tree := set_label tex (''EMISSION: '' @ label_or_name (nodes g1 ! tex)) g1,
                               connected_count := connected_count st + 1\<rparr>
                       | (False, g1) \<Rightarrow> st1\<lparr>tree := g1\<rparr>)
                    else connect_direct a st1 (tex, ty, info)))"
      unfolding process_texture_def prod.case g0_def[symmetric] Let_def using False by (simp only: if_False)
    show ?thesis
      unfolding it eq Let_def
      using comb bump emis disp norm dir
      by (auto split: prod.splits bool.splits intro!: frame_set_label g0)
  qed
qed

lemma frame_second_pass:
  assumes K: "synthesis_kinds \<subseteq> K"
  shows "frame K P g (tree st) \<Longrightarrow>
     \<forall>item \<in> set items. (\<forall>i. \<not> P (InS (material_node a) i)) \<or> fst (snd item) = Color
               \<or> socket (snd (snd item)) \<noteq> Some ''Base Color'' \<Longrightarrow>
     frame K P g (tree (second_pass h a st items))"
  unfolding second_pass_def
proof (induction items arbitrary: st)
  case Nil
  then show ?case by simp
next
  case (Cons item items)
  have "frame K P g (tree (process_texture h a st item))"
    by (rule frame_process_texture[OF Cons.prems(1) K]) (use Cons.prems(2) in auto)
  then have "frame K P g (tree (foldl (process_texture h a) (process_texture h a st item) items))"
    by (rule Cons.IH) (use Cons.prems(2) in auto)
  then show ?case by simp
qed


section \<open>A height texture without a material output node\<close>

text \<open>
  C7 says that no failure of a texture's step goes without a diagnostic, and that the
  height texture's step is reported as failed when the material output node is not
  available. In \<open>luxcore_texture_connect.py\<close> it is not: without a material output
  node, \<open>setup_displacement\<close> returns at once, and the step of a height texture adds
  no diagnostic and no node, and counts the texture as connected.
\<close>

theorem height_without_output_unreported:
  assumes "material_output a = None"
  shows "diags (tree (process_texture h a st (tex, Height, info))) = diags (tree st)
       \<and> kinds (tree (process_texture h a st (tex, Height, info))) = kinds (tree st)
       \<and> connected_count (process_texture h a st (tex, Height, info)) = connected_count st + 1"
proof -
  define g0 where "g0 = (case mapping_node a of
                       Some m \<Rightarrow> (if create_uv_node a
                                   then snd (connect_mapping_to_texture (tree st) m tex)
                                   else tree st)
                     | None \<Rightarrow> tree st)"
  have g0: "diags g0 = diags (tree st)" "kinds g0 = kinds (tree st)"
    unfolding g0_def by (simp_all add: connect_mapping_to_texture_quiet split: option.splits)
  have d: "setup_displacement h g0 (material_node a) tex (material_output a) (displacement_height a) = g0"
    using assms by (simp add: setup_displacement_def)
  have eq: "process_texture h a st (tex, Height, info) =
     st\<lparr>tree := g0, covered_types := insert Height (covered_types st),
        height_nodes := height_nodes st @ [tex],
        tree := set_label tex (''HEIGHT: '' @ label_or_name (nodes g0 ! tex)) g0,
        connected_count := connected_count st + 1\<rparr>"
    unfolding process_texture_def prod.case g0_def[symmetric] Let_def d by simp
  show ?thesis
    unfolding eq using g0 by simp
qed

theorem height_without_output_unreported_witness:
  "material_output (plain_args None) = None
   \<and> diags (tree (process_texture small_host (plain_args None)
               (init_state (material_with [''wall_height''])) (1, Height, entry [] None 3))) = []
   \<and> connected_count (process_texture small_host (plain_args None)
               (init_state (material_with [''wall_height''])) (1, Height, entry [] None 3)) = 1"
proof -
  have a: "material_output (plain_args None) = None" by (simp add: plain_args_def)
  have b: "diags (tree (init_state (material_with [''wall_height'']))) = []"
    "connected_count (init_state (material_with [''wall_height''])) = 0"
    by (simp_all add: init_state_def material_with_def)
  from height_without_output_unreported [OF a, of small_host "init_state (material_with [''wall_height''])" 1
          "entry [] None 3"] a b
  show ?thesis by simp
qed


text \<open>
  A run on a height, a roughness and a metallic texture with a host that has no material
  output node: the two direct links are made, the run reports three connected textures,
  and nothing is said about the displacement that was not built.
\<close>

lemma execute_without_material_output:
  "fst (execute small_host (material_with [''wall_height'', ''wall_roughness'', ''wall_metallic'']) 0 False)
     = FINISHED
   \<and> links (snd (execute small_host (material_with [''wall_height'', ''wall_roughness'', ''wall_metallic'']) 0 False))
     = [(OutS 3 0, InS 0 1), (OutS 2 0, InS 0 2)]
   \<and> kinds (snd (execute small_host (material_with [''wall_height'', ''wall_roughness'', ''wall_metallic'']) 0 False))
     = kinds (material_with [''wall_height'', ''wall_roughness'', ''wall_metallic''])
   \<and> diags (snd (execute small_host (material_with [''wall_height'', ''wall_roughness'', ''wall_metallic'']) 0 False))
     = [Print ''Texture identified: wall_height -> height'',
        Print ''Texture identified: wall_roughness -> roughness'',
        Print ''Texture identified: wall_metallic -> metallic'',
        Report ''INFO'' ''Connected 3 textures'']"
proof -
  define g where "g = material_with [''wall_height'', ''wall_roughness'', ''wall_metallic'']"
  define g1 where "g1 = print ''Texture identified: wall_metallic -> metallic''
         (print ''Texture identified: wall_roughness -> roughness''
           (print ''Texture identified: wall_height -> height'' g))"
  define st where "st = second_pass small_host (plain_args None) (init_state g1)
      [(3, Metallic, snd (texture_mapping_connect ! 6)), (2, Roughness, snd (texture_mapping_connect ! 7)),
       (1, Height, snd (texture_mapping_connect ! 9))]"
  have t: "filter (\<lambda>i. bl_idname (nodes g ! i) \<in> set texture_node_kinds) [0..<length (nodes g)] = [1, 2, 3]"
    unfolding g_def by code_simp
  have mo: "find_or_create_material_output small_host g = (None, g)"
    unfolding g_def by code_simp
  have id1: "identify_connect ''wall_height'' None = Some (Height, snd (texture_mapping_connect ! 9))" by code_simp
  have id2: "identify_connect ''wall_roughness'' None = Some (Roughness, snd (texture_mapping_connect ! 7))" by code_simp
  have id3: "identify_connect ''wall_metallic'' None = Some (Metallic, snd (texture_mapping_connect ! 6))" by code_simp
  have nm: "name (nodes g ! Suc 0) = ''wall_height''" "name (nodes g ! 2) = ''wall_roughness''"
    "name (nodes g ! 3) = ''wall_metallic''" "image_name (nodes g ! Suc 0) = None"
    "image_name (nodes g ! 2) = None" "image_name (nodes g ! 3) = None"
    unfolding g_def by code_simp+
  have tn: "type_name Height = ''height''" "type_name Roughness = ''roughness''"
    "type_name Metallic = ''metallic''" by (simp_all add: type_name_def)
  have fp: "first_pass g [1, 2, 3] =
      ([(1, Height, snd (texture_mapping_connect ! 9)), (2, Roughness, snd (texture_mapping_connect ! 7)), (3, Metallic, snd (texture_mapping_connect ! 6))], g1)"
    by (simp add: nm id1 id2 id3 tn g1_def)
  have sp: "sort_by_priority [(1, Height, snd (texture_mapping_connect ! 9)), (2, Roughness, snd (texture_mapping_connect ! 7)),
              (3, Metallic, snd (texture_mapping_connect ! 6))]
            = [(3, Metallic, snd (texture_mapping_connect ! 6)), (2, Roughness, snd (texture_mapping_connect ! 7)), (1, Height, snd (texture_mapping_connect ! 9))]"
    by code_simp
  have c: "color_node st = None" "connected_count st = 3"
    "links (tree st) = [(OutS 3 0, InS 0 1), (OutS 2 0, InS 0 2)]"
    "kinds (tree st) = kinds g"
    "diags (tree st) = [Print ''Texture identified: wall_height -> height'',
        Print ''Texture identified: wall_roughness -> roughness'',
        Print ''Texture identified: wall_metallic -> metallic'']"
    unfolding st_def g1_def g_def by code_simp+
  have ctm: "connect_textures_to_material small_host g (plain_args None) [1, 2, 3] = st"
    unfolding connect_textures_to_material_def fp prod.case Let_def sp st_def[symmetric]
    by (simp add: combine_color_ao_def c)
  have pa: "\<lparr>material_node = 0, mapping_node = None, create_uv_node = False,
              material_output = None, displacement_height = 1 / 100\<rparr> = plain_args None"
    by (simp add: plain_args_def)
  have s3: "str_of_nat 3 = ''3''" by code_simp
  have ex: "execute small_host g 0 False = (FINISHED, report ''INFO'' ''Connected 3 textures'' (tree st))"
    by (simp add: execute_def Let_def t mo pa ctm c s3 del: str_of_nat.simps One_nat_def)
  show ?thesis
    unfolding g_def[symmetric] ex by (simp add: c)
qed


end
